theory Spec2Isabelle
  imports Main "HOL-Library.AList"
begin

section \<open>Values and strings\<close>

text \<open>
  The services exchange JSON documents (request payloads, the JSON columns of the
  models). A Python \<^verbatim>\<open>dict\<close> is an association list: insertion order is kept, a key
  occurs once, \<^verbatim>\<open>d[k] = v\<close> overwrites in place or appends (\<^const>\<open>AList.update\<close>).
\<close>

datatype json =
    JNull
  | JBool bool
  | JNum int
  | JStr string
  | JList "json list"
  | JDict "(string \<times> json) list"

type_synonym dict = "(string \<times> json) list"

text \<open>\<^verbatim>\<open>d.get(k, default)\<close>\<close>

definition dict_get :: "dict \<Rightarrow> string \<Rightarrow> json \<Rightarrow> json" where
  "dict_get d k dflt = (case map_of d k of None \<Rightarrow> dflt | Some v \<Rightarrow> v)"

text \<open>\<^verbatim>\<open>d.update(u)\<close>: every pair of \<open>u\<close>, in order, is stored into \<open>d\<close>.\<close>

definition dict_update :: "dict \<Rightarrow> dict \<Rightarrow> dict" where
  "dict_update d u = fold (\<lambda>(k, v) acc. AList.update k v acc) u d"

text \<open>
  Python's \<^verbatim>\<open>str.strip()\<close> removes leading and trailing whitespace. Characters are the
  code points below 256; \<^verbatim>\<open>str.isspace\<close> holds there for tab, line feed, vertical tab,
  form feed, carriage return, the separators 0x1C to 0x1F, space, 0x85 and 0xA0.
\<close>

definition is_space :: "char \<Rightarrow> bool" where
  "is_space c = (c \<in> set [CHR 0x09, CHR 0x0A, CHR 0x0B, CHR 0x0C, CHR 0x0D,
                           CHR 0x1C, CHR 0x1D, CHR 0x1E, CHR 0x1F, CHR 0x20,
                           CHR 0x85, CHR 0xA0])"

definition strip :: "string \<Rightarrow> string" where
  "strip s = rev (dropWhile is_space (rev (dropWhile is_space s)))"

definition startswith :: "string \<Rightarrow> string \<Rightarrow> bool" where
  "startswith s pre = (take (length pre) s = pre)"

text \<open>
  \<^verbatim>\<open>SEOService._get_optimized_description\<close> lines 84 to 86 and
  \<^verbatim>\<open>ProductService._get_optimized_description\<close> lines 223 to 225, the same two lines:
  \<^verbatim>\<open>
  if not optimized_description.strip().startswith('<'):
      optimized_description = f"<p>{optimized_description}</p>"
  \<close>
\<close>

definition ensure_html_formatting :: "string \<Rightarrow> string" where
  "ensure_html_formatting optimized_description =
     (if \<not> startswith (strip optimized_description) ''<''
      then ''<p>'' @ optimized_description @ ''</p>''
      else optimized_description)"



text \<open>Python's truth value of a JSON value, and the \<^verbatim>\<open>or\<close> of two values.\<close>

fun truthy :: "json \<Rightarrow> bool" where
  "truthy JNull = False"
| "truthy (JBool b) = b"
| "truthy (JNum n) = (n \<noteq> 0)"
| "truthy (JStr s) = (s \<noteq> [])"
| "truthy (JList xs) = (xs \<noteq> [])"
| "truthy (JDict d) = (d \<noteq> [])"

definition py_or :: "json \<Rightarrow> json \<Rightarrow> json" where
  "py_or a b = (if truthy a then a else b)"

text \<open>The name Python prints for the type of a value, as it appears in an \<^verbatim>\<open>AttributeError\<close>.\<close>

fun type_name :: "json \<Rightarrow> string" where
  "type_name JNull = ''NoneType''"
| "type_name (JBool b) = ''bool''"
| "type_name (JNum n) = ''int''"
| "type_name (JStr s) = ''str''"
| "type_name (JList xs) = ''list''"
| "type_name (JDict d) = ''dict''"

definition no_attribute :: "string \<Rightarrow> string \<Rightarrow> string" where
  "no_attribute ty attr =
     [CHR 0x27] @ ty @ [CHR 0x27] @ '' object has no attribute '' @ [CHR 0x27] @ attr @ [CHR 0x27]"

text \<open>
  The messages of three more exceptions: the \<^verbatim>\<open>TypeError\<close> of a call of a value that
  is no callable, the \<^verbatim>\<open>TypeError\<close> of the declarative constructor for a keyword that
  names no attribute of the class, and the \<^verbatim>\<open>InvalidRequestError\<close> of
  \<^verbatim>\<open>query.filter_by\<close> for a keyword that names no mapped property of the table's class
  (the wording is the library's).
\<close>

definition not_callable :: "string \<Rightarrow> string" where
  "not_callable ty = [CHR 0x27] @ ty @ [CHR 0x27] @ '' object is not callable''"

definition invalid_keyword :: "string \<Rightarrow> string \<Rightarrow> string" where
  "invalid_keyword k cls =
     [CHR 0x27] @ k @ [CHR 0x27] @ '' is an invalid keyword argument for '' @ cls"

definition no_property :: "string \<Rightarrow> string \<Rightarrow> string" where
  "no_property table k =
     ''Entity namespace for '' @ [CHR 0x22] @ table @ [CHR 0x22] @ '' has no property '' @
     [CHR 0x22] @ k @ [CHR 0x22]"

text \<open>
  Python's \<^verbatim>\<open>==\<close> on JSON values: dictionaries are equal when they have the same keys
  with equal values, in any order; lists are equal item by item; \<^verbatim>\<open>True == 1\<close> and
  \<^verbatim>\<open>False == 0\<close> hold.
\<close>

primrec py_eq :: "json \<Rightarrow> json \<Rightarrow> bool" where
  "py_eq JNull y = (case y of JNull \<Rightarrow> True | _ \<Rightarrow> False)"
| "py_eq (JBool a) y =
     (case y of JBool b \<Rightarrow> a = b | JNum n \<Rightarrow> n = (if a then 1 else 0) | _ \<Rightarrow> False)"
| "py_eq (JNum m) y =
     (case y of JNum n \<Rightarrow> m = n | JBool b \<Rightarrow> m = (if b then 1 else 0) | _ \<Rightarrow> False)"
| "py_eq (JStr s) y = (case y of JStr t \<Rightarrow> s = t | _ \<Rightarrow> False)"
| "py_eq (JList xs) y =
     (case y of
        JList ys \<Rightarrow> length xs = length ys \<and> list_all (\<lambda>(eq, v). eq v) (zip (map py_eq xs) ys)
      | _ \<Rightarrow> False)"
| "py_eq (JDict d) y =
     (case y of
        JDict e \<Rightarrow>
          length d = length e \<and>
          list_all (\<lambda>(k, eq). case map_of e k of None \<Rightarrow> False | Some v \<Rightarrow> eq v)
            (map (map_prod id py_eq) d)
      | _ \<Rightarrow> False)"

text \<open>The decimal numeral an f-string prints for a length.\<close>

fun digit :: "nat \<Rightarrow> char" where
  "digit n = char_of (48 + n)"

function string_of_nat :: "nat \<Rightarrow> string" where
  "string_of_nat n = (if n < 10 then [digit n] else string_of_nat (n div 10) @ [digit (n mod 10)])"
  by pat_completeness auto
termination
  by (relation "measure id") auto



section \<open>Models\<close>

text \<open>
  \<^verbatim>\<open>models/store.py\<close>, \<^verbatim>\<open>models/product.py\<close>, \<^verbatim>\<open>models/prompt.py\<close>. A record
  holds columns that the class declares, those that the modelled services read or write.
  A time stamp (\<^verbatim>\<open>datetime.utcnow()\<close>) is a clock reading, a natural number. A nullable
  column is an option.
\<close>

record Store =
  Store_id :: nat
  Store_user_id :: nat
  store_url :: string
  access_token :: "string option"
  api_version :: string
  prompt_preferences :: "dict option"
  Store_updated_at :: "nat option"

text \<open>
  The column default of \<^verbatim>\<open>Store.prompt_preferences\<close>, lines 25 to 53 of
  \<^verbatim>\<open>models/store.py\<close>: the preferences of a store that has never set any.
\<close>

definition default_preferences :: dict where
  "default_preferences =
     [(''tone'', JStr ''professional''),
      (''target_audience'', JStr ''general''),
      (''writing_style'', JStr ''descriptive''),
      (''seo_keywords_focus'', JStr ''balanced''),
      (''description_length'', JStr ''medium''),
      (''key_features'', JList []),
      (''brand_voice'', JDict [(''personality'', JStr ''professional''),
                               (''emotion'', JStr ''neutral''),
                               (''formality'', JStr ''formal'')]),
      (''industry_specific'', JDict [(''industry'', JNull),
                                     (''specializations'', JList []),
                                     (''technical_level'', JStr ''moderate'')]),
      (''custom_instructions'', JStr ''''),
      (''example_description'', JStr ''''),
      (''avoid_words'', JList []),
      (''must_include_elements'', JList []),
      (''template_sections'', JList [JStr ''introduction'', JStr ''key_features'',
                                     JStr ''benefits'', JStr ''specifications'',
                                     JStr ''call_to_action''])]"

text \<open>
  \<^verbatim>\<open>models/product.py\<close> declares \<^verbatim>\<open>id\<close>, \<^verbatim>\<open>store_id\<close>, \<^verbatim>\<open>shopify_product_id\<close>,
  \<^verbatim>\<open>title\<close>, \<^verbatim>\<open>description\<close>, \<^verbatim>\<open>optimized_description\<close>, \<^verbatim>\<open>handle\<close>,
  \<^verbatim>\<open>vendor\<close>, \<^verbatim>\<open>product_type\<close>, \<^verbatim>\<open>tags\<close>, \<^verbatim>\<open>variants\<close>, \<^verbatim>\<open>images\<close>,
  \<^verbatim>\<open>status\<close>, \<^verbatim>\<open>last_synced\<close>, \<^verbatim>\<open>created_at\<close>, \<^verbatim>\<open>updated_at\<close> and the
  relationship \<^verbatim>\<open>store\<close>. It declares none of \<^verbatim>\<open>original_description\<close>,
  \<^verbatim>\<open>is_optimized\<close>, \<^verbatim>\<open>last_optimized\<close>, \<^verbatim>\<open>optimization_service\<close>, \<^verbatim>\<open>last_deployed\<close>,
  \<^verbatim>\<open>deployment_status\<close>, which the services read and write.
\<close>

record Product =
  Product_id :: nat
  Product_store_id :: nat
  shopify_product_id :: string
  title :: string
  description :: "string option"
  optimized_description :: "string option"
  status :: string

definition Product_columns :: "string list" where
  "Product_columns =
     [''id'', ''store_id'', ''shopify_product_id'', ''title'', ''description'',
      ''optimized_description'', ''handle'', ''vendor'', ''product_type'', ''tags'',
      ''variants'', ''images'', ''status'', ''last_synced'', ''created_at'', ''updated_at'',
      ''store'']"

text \<open>
  \<^verbatim>\<open>models/prompt.py\<close> declares \<^verbatim>\<open>id\<close>, \<^verbatim>\<open>store_id\<close>, \<^verbatim>\<open>updated_at\<close> (fields
  here) and the columns \<^verbatim>\<open>template_name\<close>, \<^verbatim>\<open>content\<close>, \<^verbatim>\<open>response\<close>,
  \<^verbatim>\<open>status\<close>, \<^verbatim>\<open>response_time\<close>, \<^verbatim>\<open>error_message\<close>, \<^verbatim>\<open>metadata\<close>,
  \<^verbatim>\<open>created_at\<close> and thirteen configuration columns, which \<open>columns\<close> maps to their
  values (a column that is not in the map is \<^verbatim>\<open>None\<close>). It declares none of
  \<^verbatim>\<open>template\<close>, \<^verbatim>\<open>is_active\<close>, \<^verbatim>\<open>name\<close>, \<^verbatim>\<open>description\<close>, \<^verbatim>\<open>is_default\<close>,
  \<^verbatim>\<open>variables\<close>, and no method \<^verbatim>\<open>increment_usage\<close>, which the services use.
  A prompt that is not yet in the table has no primary key.
\<close>

record Prompt =
  Prompt_id :: "nat option"
  Prompt_store_id :: nat
  Prompt_updated_at :: "nat option"
  columns :: dict

definition Prompt_columns :: "string list" where
  "Prompt_columns =
     [''id'', ''store_id'', ''template_name'', ''content'', ''response'', ''status'',
      ''response_time'', ''error_message'', ''metadata'', ''created_at'', ''updated_at'',
      ''tone'', ''target_audience'', ''writing_style'', ''seo_keywords_focus'',
      ''description_length'', ''key_features'', ''brand_voice'', ''industry_specific'',
      ''custom_instructions'', ''example_description'', ''avoid_words'',
      ''must_include_elements'', ''template_sections'', ''store'']"

text \<open>
  An object of a model class in memory: the mapped attributes, which a flush writes to the
  row, and the other entries of the instance dictionary, plain Python attributes that some
  assignment has put there and that no flush writes. An object that a query has loaded
  has no plain attribute. Reading an attribute that the class does not declare gives the
  plain attribute of that name or raises \<^verbatim>\<open>AttributeError\<close>; assigning to it makes a
  plain attribute.
\<close>

record 'row entity =
  mapped :: 'row
  unmapped :: dict

definition load :: "'row \<Rightarrow> 'row entity" where
  "load r = \<lparr> mapped = r, unmapped = [] \<rparr>"

definition getattr :: "string \<Rightarrow> 'row entity \<Rightarrow> string \<Rightarrow> string + json" where
  "getattr cls obj name =
     (case map_of (unmapped obj) name of
        None \<Rightarrow> Inl (no_attribute cls name)
      | Some v \<Rightarrow> Inr v)"

definition set_plain :: "'row entity \<Rightarrow> string \<Rightarrow> json \<Rightarrow> 'row entity" where
  "set_plain obj name v = obj\<lparr>unmapped := AList.update name v (unmapped obj)\<rparr>"

text \<open>The body of the default prompt: the literal of \<^verbatim>\<open>create_default_prompt\<close>, lines 78 to 115.\<close>

definition default_template_body :: string where
  "default_template_body = concat
    [''\<newline>'',
     ''            As an expert e-commerce copywriter and SEO specialist, optimize the following product description \<newline>'',
     ''            to be more engaging, SEO-friendly, and conversion-focused. Maintain the key product features \<newline>'',
     ''            while improving readability and search engine optimization.\<newline>'',
     ''\<newline>'',
     ''            Product Title: {{product_title}}\<newline>'',
     ''            Original Description: {{original_description}}\<newline>'',
     ''\<newline>'',
     ''            Guidelines:\<newline>'',
     ''            - Maintain a {{tone}} tone\<newline>'',
     ''            - Target {{target_audience}} audience\<newline>'',
     ''            - Use {{writing_style}} writing style\<newline>'',
     ''            - Focus on {{seo_keywords_focus}} SEO optimization\<newline>'',
     ''            - Aim for {{description_length}} length\<newline>'',
     ''            {% if key_features %}\<newline>'',
     ''            - Highlight these key features: {{key_features|join(', ')}}\<newline>'',
     ''            {% endif %}\<newline>'',
     ''            {% if brand_voice %}\<newline>'',
     ''            - Brand Voice:\<newline>'',
     ''              * Personality: {{brand_voice.personality}}\<newline>'',
     ''              * Emotion: {{brand_voice.emotion}}\<newline>'',
     ''              * Formality: {{brand_voice.formality}}\<newline>'',
     ''            {% endif %}\<newline>'',
     ''            {% if industry_specific %}\<newline>'',
     ''            - Industry Specifics:\<newline>'',
     ''              * Industry: {{industry_specific.industry}}\<newline>'',
     ''              * Technical Level: {{industry_specific.technical_level}}\<newline>'',
     ''            {% endif %}\<newline>'',
     ''            {% if custom_instructions %}\<newline>'',
     ''            - Custom Instructions: {{custom_instructions}}\<newline>'',
     ''            {% endif %}\<newline>'',
     ''            {% if avoid_words %}\<newline>'',
     ''            - Avoid these words: {{avoid_words|join(', ')}}\<newline>'',
     ''            {% endif %}\<newline>'',
     ''            {% if must_include_elements %}\<newline>'',
     ''            - Must include: {{must_include_elements|join(', ')}}\<newline>'',
     ''            {% endif %}\<newline>'',
     ''            '']"

definition default_metadata :: dict where
  "default_metadata =
    [(''product_title'', JDict [(''type'', JStr ''string''), (''required'', JBool True)]),
     (''original_description'', JDict [(''type'', JStr ''string''), (''required'', JBool True)]),
     (''tone'', JDict [(''type'', JStr ''string''), (''required'', JBool True)]),
     (''target_audience'', JDict [(''type'', JStr ''string''), (''required'', JBool True)]),
     (''writing_style'', JDict [(''type'', JStr ''string''), (''required'', JBool True)]),
     (''seo_keywords_focus'', JDict [(''type'', JStr ''string''), (''required'', JBool True)]),
     (''description_length'', JDict [(''type'', JStr ''string''), (''required'', JBool True)]),
     (''key_features'', JDict [(''type'', JStr ''array''), (''required'', JBool False)]),
     (''brand_voice'', JDict [(''type'', JStr ''object''), (''required'', JBool False)]),
     (''industry_specific'', JDict [(''type'', JStr ''object''), (''required'', JBool False)]),
     (''custom_instructions'', JDict [(''type'', JStr ''string''), (''required'', JBool False)]),
     (''avoid_words'', JDict [(''type'', JStr ''array''), (''required'', JBool False)]),
     (''must_include_elements'', JDict [(''type'', JStr ''array''), (''required'', JBool False)])]"


text \<open>
  \<^verbatim>\<open>Prompt.create_default_prompt(store_id)\<close>: the constructor call sets \<^verbatim>\<open>store_id\<close>,
  \<^verbatim>\<open>template_name\<close>, \<^verbatim>\<open>content\<close>, \<^verbatim>\<open>response\<close> (the body), \<^verbatim>\<open>status\<close>,
  \<^verbatim>\<open>response_time\<close> (the float \<open>0.0\<close>, written \<open>JNum 0\<close>) and \<^verbatim>\<open>metadata\<close>, all of
  them declared, and nothing else.
\<close>

definition create_default_prompt :: "nat \<Rightarrow> Prompt entity" where
  "create_default_prompt store_id =
     \<lparr> mapped =
         \<lparr> Prompt_id = None,
           Prompt_store_id = store_id,
           Prompt_updated_at = None,
           columns =
             [(''template_name'', JStr ''Default SEO Optimization''),
              (''content'', JStr ''Default template for SEO-optimized product descriptions''),
              (''response'', JStr default_template_body),
              (''status'', JStr ''success''),
              (''response_time'', JNum 0),
              (''metadata'', JDict default_metadata)] \<rparr>,
       unmapped = [] \<rparr>"

text \<open>
  The constructor of a declarative class, \<^verbatim>\<open>Prompt(store_id=..., **kwargs)\<close>: it raises
  \<^verbatim>\<open>TypeError\<close> for the first keyword that names no attribute of the class, and sets the
  attributes otherwise.
\<close>

definition Prompt_init :: "nat \<Rightarrow> dict \<Rightarrow> string + Prompt entity" where
  "Prompt_init store_id kwargs =
     (case find (\<lambda>k. k \<notin> set Prompt_columns) (map fst kwargs) of
        Some k \<Rightarrow> Inl (invalid_keyword k ''Prompt'')
      | None \<Rightarrow>
          Inr \<lparr> mapped = \<lparr> Prompt_id = None, Prompt_store_id = store_id,
                           Prompt_updated_at = None, columns = kwargs \<rparr>,
                unmapped = [] \<rparr>)"

text \<open>
  \<^verbatim>\<open>prompt.increment_usage()\<close>, line 82 of \<^verbatim>\<open>seo_service.py\<close>. The class defines no
  such method, so the name is looked up as a plain attribute: the lookup raises
  \<^verbatim>\<open>AttributeError\<close>, or finds a JSON value, which is no callable.
\<close>

definition increment_usage :: "Prompt entity \<Rightarrow> string + Prompt entity" where
  "increment_usage prompt =
     (case getattr ''Prompt'' prompt ''increment_usage'' of
        Inl e \<Rightarrow> Inl e
      | Inr v \<Rightarrow> Inl (not_callable (type_name v)))"


section \<open>The database and its session\<close>

text \<open>
  The tables are lists of rows in primary-key order; \<^verbatim>\<open>query.filter_by(...).first()\<close> is
  \<^const>\<open>find\<close>, \<^verbatim>\<open>.all()\<close> is \<^const>\<open>filter\<close>. A session holds the committed tables
  and the working tables (the committed ones with the pending changes of the loaded
  objects): \<^verbatim>\<open>db.session.commit()\<close> makes the working tables the committed ones,
  \<^verbatim>\<open>db.session.rollback()\<close> drops the pending changes. Commits are taken to succeed.
  Every call of a service runs in a session of its own, so the objects it gets from its
  queries are freshly loaded.
\<close>

record db =
  stores :: "Store list"
  products :: "Product list"
  prompts :: "Prompt list"
  next_prompt_id :: nat

record session =
  committed :: db
  working :: db

definition begin_session :: "db \<Rightarrow> session" where
  "begin_session d = \<lparr> committed = d, working = d \<rparr>"

definition commit :: "session \<Rightarrow> session" where
  "commit s = s\<lparr>committed := working s\<rparr>"

definition rollback :: "session \<Rightarrow> session" where
  "rollback s = s\<lparr>working := committed s\<rparr>"

text \<open>
  \<^verbatim>\<open>query.filter_by(**kwargs)\<close> resolves every keyword against the mapped properties of
  the class before any row is read, and raises \<^verbatim>\<open>InvalidRequestError\<close> for the first one
  that is none: the result is the message, if any.
\<close>

definition filter_by :: "string \<Rightarrow> string list \<Rightarrow> string list \<Rightarrow> string option" where
  "filter_by table properties keywords =
     map_option (no_property table) (find (\<lambda>k. k \<notin> set properties) keywords)"

text \<open>\<^verbatim>\<open>Store.query.filter_by(id=store_id, user_id=user_id).first()\<close>\<close>

definition query_store :: "db \<Rightarrow> nat \<Rightarrow> nat \<Rightarrow> Store option" where
  "query_store d store_id user_id =
     find (\<lambda>s. Store_id s = store_id \<and> Store_user_id s = user_id) (stores d)"

text \<open>\<^verbatim>\<open>Product.query.filter_by(id=product_id, store_id=store_id).first()\<close>\<close>

definition query_product :: "db \<Rightarrow> nat \<Rightarrow> nat \<Rightarrow> Product entity option" where
  "query_product d product_id store_id =
     map_option load
       (find (\<lambda>p. Product_id p = product_id \<and> Product_store_id p = store_id) (products d))"

text \<open>\<^verbatim>\<open>Product.query.filter_by(store_id=store_id).all()\<close>\<close>

definition query_products :: "db \<Rightarrow> nat \<Rightarrow> Product entity list" where
  "query_products d store_id =
     map load (filter (\<lambda>p. Product_store_id p = store_id) (products d))"

text \<open>
  \<^verbatim>\<open>Prompt.query.filter_by(store_id=store_id, is_active=True).first()\<close>, line 36 of
  \<^verbatim>\<open>seo_service.py\<close>.
\<close>

definition query_active_prompt :: "db \<Rightarrow> nat \<Rightarrow> string + Prompt entity option" where
  "query_active_prompt d store_id =
     (case filter_by ''prompts'' Prompt_columns [''store_id'', ''is_active''] of
        Some e \<Rightarrow> Inl e
      | None \<Rightarrow>
          Inr (map_option load
                 (find (\<lambda>p. Prompt_store_id p = store_id \<and>
                             map_of (columns p) ''is_active'' = Some (JBool True))
                    (prompts d))))"

text \<open>\<^verbatim>\<open>Prompt.query.filter_by(id=prompt_id, store_id=store_id).first()\<close>\<close>

definition query_prompt :: "db \<Rightarrow> nat \<Rightarrow> nat \<Rightarrow> Prompt entity option" where
  "query_prompt d prompt_id store_id =
     map_option load
       (find (\<lambda>p. Prompt_id p = Some prompt_id \<and> Prompt_store_id p = store_id) (prompts d))"

text \<open>
  \<^verbatim>\<open>Product.query.filter_by(store_id=store_id, is_optimized=True).filter(...).all()\<close>,
  lines 427 to 433 of \<^verbatim>\<open>product_service.py\<close>; \<^verbatim>\<open>filter_by\<close> is evaluated before the
  argument of \<^verbatim>\<open>filter\<close>. Where the keywords resolve, the rows of the store are
  selected: a product row has no column \<^verbatim>\<open>is_optimized\<close> or \<^verbatim>\<open>deployment_status\<close> to
  select on.
\<close>

definition query_pending_deployment :: "db \<Rightarrow> nat \<Rightarrow> string + Product entity list" where
  "query_pending_deployment d store_id =
     (case filter_by ''products'' Product_columns [''store_id'', ''is_optimized''] of
        Some e \<Rightarrow> Inl e
      | None \<Rightarrow> Inr (map load (filter (\<lambda>p. Product_store_id p = store_id) (products d))))"

text \<open>
  A changed mapped attribute of a loaded object is a changed row of the working table: the
  row with the object's primary key.
\<close>

definition save_product :: "Product \<Rightarrow> db \<Rightarrow> db" where
  "save_product p d =
     d\<lparr>products := map (\<lambda>q. if Product_id q = Product_id p then p else q) (products d)\<rparr>"

definition save_prompt :: "Prompt \<Rightarrow> db \<Rightarrow> db" where
  "save_prompt p d =
     (case Prompt_id p of
        None \<Rightarrow> d
      | Some i \<Rightarrow> d\<lparr>prompts := map (\<lambda>q. if Prompt_id q = Some i then p else q) (prompts d)\<rparr>)"

definition save_store :: "Store \<Rightarrow> db \<Rightarrow> db" where
  "save_store s d =
     d\<lparr>stores := map (\<lambda>q. if Store_id q = Store_id s then s else q) (stores d)\<rparr>"

text \<open>\<^verbatim>\<open>db.session.add(prompt)\<close>: the row is appended and takes the next primary key.\<close>

definition persisted :: "Prompt \<Rightarrow> db \<Rightarrow> Prompt" where
  "persisted p d = p\<lparr>Prompt_id := Some (next_prompt_id d)\<rparr>"

definition add_prompt :: "Prompt \<Rightarrow> db \<Rightarrow> db" where
  "add_prompt p d =
     d\<lparr>prompts := prompts d @ [persisted p d], next_prompt_id := Suc (next_prompt_id d)\<rparr>"


section \<open>The prompt service\<close>

text \<open>
  The template engine and the generation provider are outside the repository. The engine
  is a pair of functions: \<^verbatim>\<open>jinja2.Template(source)\<close> parses and may raise (the left
  result is the exception's message), \<^verbatim>\<open>template.render(**context)\<close> renders and may
  raise. The provider, \<^verbatim>\<open>model.generate_content(prompt).text\<close>, maps the prompt text to
  the generated text or raises.
\<close>

record 'tmpl jinja2 =
  Template :: "json \<Rightarrow> string + 'tmpl"
  render :: "'tmpl \<Rightarrow> dict \<Rightarrow> string + string"

type_synonym provider = "string \<Rightarrow> string + string"

text \<open>
  \<^verbatim>\<open>PromptService.render_prompt(prompt, context)\<close>, lines 329 to 333: every exception,
  the \<^verbatim>\<open>AttributeError\<close> of \<^verbatim>\<open>prompt.template\<close> included, is raised again as
  \<^verbatim>\<open>Exception(f"Failed to render prompt template: {str(e)}")\<close>.
\<close>

definition render_failed :: "string \<Rightarrow> string" where
  "render_failed e = ''Failed to render prompt template: '' @ e"

definition render_prompt :: "'tmpl jinja2 \<Rightarrow> Prompt entity \<Rightarrow> dict \<Rightarrow> string + string" where
  "render_prompt jj prompt context =
     (case getattr ''Prompt'' prompt ''template'' of
        Inl e \<Rightarrow> Inl (render_failed e)
      | Inr source \<Rightarrow>
          (case Template jj source of
             Inl e \<Rightarrow> Inl (render_failed e)
           | Inr template \<Rightarrow>
               (case render jj template context of
                  Inl e \<Rightarrow> Inl (render_failed e)
                | Inr text \<Rightarrow> Inr text)))"


text \<open>
  The replies of the services are tuples of a JSON object and an HTTP status; the shapes
  of the objects are the constructors of \<open>reply\<close>. \<^verbatim>\<open>to_dict()\<close> of an object, which
  lists declared columns only, is kept as the row.
\<close>

datatype reply =
    Error string
  | Message string
  | Optimized string Product
  | Batch string "Product list" "(nat \<times> string) list option"
  | Deployed string Product
  | Deployment string nat nat nat "(nat \<times> string \<times> string) list"
  | Preferences string "dict option"
  | Prompt_reply string Prompt

text \<open>\<^verbatim>\<open>PromptService.update_prompt_preferences\<close>\<close>

definition required_fields :: "string list" where
  "required_fields = [''tone'', ''target_audience'', ''writing_style'']"

definition valid_fields :: "string list" where
  "valid_fields =
     [''tone'', ''target_audience'', ''writing_style'', ''seo_keywords_focus'',
      ''description_length'', ''key_features'', ''brand_voice'', ''industry_specific'',
      ''custom_instructions'', ''example_description'', ''avoid_words'',
      ''must_include_elements'', ''template_sections'']"

text \<open>The first field of a list that a payload lacks (\<^verbatim>\<open>if field not in preferences\<close>).\<close>

definition first_missing :: "string list \<Rightarrow> dict \<Rightarrow> string option" where
  "first_missing names payload = find (\<lambda>field. map_of payload field = None) names"

text \<open>
  Lines 71 to 79. \<^verbatim>\<open>updated_preferences\<close> is a shallow copy of the dictionary that the
  store object holds: the two dictionaries share their values. The loop over
  \<^verbatim>\<open>valid_fields\<close> assigns into the copy, which leaves the held dictionary alone, except
  for \<^verbatim>\<open>brand_voice\<close> and \<^verbatim>\<open>industry_specific\<close> with a dictionary in the payload:
  there the value in the copy (an empty dictionary when the key is new) receives
  \<^verbatim>\<open>.update(...)\<close> in place, which changes the held dictionary too when the value is still
  the shared one, and raises \<^verbatim>\<open>AttributeError\<close> when the value is not a dictionary.
  The state of the loop is the held dictionary, the copy, and the keys whose value in the
  copy is no longer the shared one.
\<close>

fun merge_fields ::
  "string list \<Rightarrow> dict \<Rightarrow> dict \<times> dict \<times> string list \<Rightarrow> string + dict \<times> dict \<times> string list" where
  "merge_fields [] preferences state = Inr state"
| "merge_fields (field # names) preferences (held, updated_preferences, own) =
     (case map_of preferences field of
        None \<Rightarrow> merge_fields names preferences (held, updated_preferences, own)
      | Some (JDict new) \<Rightarrow>
          (if field \<in> set [''brand_voice'', ''industry_specific'']
           then (case map_of updated_preferences field of
                   None \<Rightarrow>
                     merge_fields names preferences
                       (held,
                        AList.update field (JDict (dict_update [] new)) updated_preferences,
                        field # own)
                 | Some (JDict old) \<Rightarrow>
                     merge_fields names preferences
                       (if field \<in> set own then held
                        else AList.update field (JDict (dict_update old new)) held,
                        AList.update field (JDict (dict_update old new)) updated_preferences,
                        own)
                 | Some other \<Rightarrow> Inl (no_attribute (type_name other) ''update''))
           else merge_fields names preferences
                  (held, AList.update field (JDict new) updated_preferences, field # own))
      | Some v \<Rightarrow>
          merge_fields names preferences
            (held, AList.update field v updated_preferences, field # own))"

text \<open>
  Lines 81 to 88. \<^verbatim>\<open>prompt_preferences\<close> is a plain \<^verbatim>\<open>db.JSON\<close> column: the flush
  writes it when the assigned value differs (\<^verbatim>\<open>==\<close>) from the value that the object held
  before the assignment, which is the held dictionary as the loop has left it. The commit
  expires the object, so the reply reads the column back from the row.
\<close>

definition unchanged :: "dict option \<Rightarrow> dict \<Rightarrow> dict \<Rightarrow> bool" where
  "unchanged before held updated_preferences =
     (case before of
        None \<Rightarrow> False
      | Some p \<Rightarrow> py_eq (JDict updated_preferences) (JDict held))"

definition update_prompt_preferences ::
  "nat \<Rightarrow> nat \<Rightarrow> nat \<Rightarrow> dict \<Rightarrow> db \<Rightarrow> db \<times> reply \<times> nat" where
  "update_prompt_preferences now store_id user_id preferences d =
     (case query_store d store_id user_id of
        None \<Rightarrow> (d, Error ''Store not found'', 404)
      | Some store \<Rightarrow>
          (case first_missing required_fields preferences of
             Some field \<Rightarrow> (d, Error (''Missing required field: '' @ field), 400)
           | None \<Rightarrow>
               (case merge_fields valid_fields preferences
                       (case prompt_preferences store of
                          None \<Rightarrow> ([], [], [])
                        | Some p \<Rightarrow> (p, p, [])) of
                  Inl e \<Rightarrow> (d, Error e, 500)
                | Inr (held, updated_preferences, own) \<Rightarrow>
                    (let store' = store
                           \<lparr>prompt_preferences :=
                              (if unchanged (prompt_preferences store) held updated_preferences
                               then prompt_preferences store
                               else Some updated_preferences),
                            Store_updated_at := Some now\<rparr>
                     in (save_store store' d,
                         Preferences ''Prompt preferences updated successfully''
                           (prompt_preferences store'),
                         200)))))"

text \<open>
  \<^verbatim>\<open>PromptService.create_prompt\<close>. The keywords of the constructor call of lines 182 to
  206 after \<^verbatim>\<open>store_id\<close>, in order.
\<close>

definition create_prompt ::
  "'tmpl jinja2 \<Rightarrow> nat \<Rightarrow> nat \<Rightarrow> dict \<Rightarrow> db \<Rightarrow> db \<times> reply \<times> nat" where
  "create_prompt jj store_id user_id prompt_data d =
     (case query_store d store_id user_id of
        None \<Rightarrow> (d, Error ''Store not found'', 404)
      | Some store \<Rightarrow>
          (case first_missing [''name'', ''template''] prompt_data of
             Some field \<Rightarrow> (d, Error (''Missing required field: '' @ field), 400)
           | None \<Rightarrow>
               (case Template jj (dict_get prompt_data ''template'' JNull) of
                  Inl e \<Rightarrow> (d, Error (''Invalid template syntax: '' @ e), 400)
                | Inr t \<Rightarrow>
                    (case Prompt_init store_id
                            [(''name'', dict_get prompt_data ''name'' JNull),
                             (''description'', dict_get prompt_data ''description'' JNull),
                             (''template'', dict_get prompt_data ''template'' JNull),
                             (''is_default'', dict_get prompt_data ''is_default'' (JBool False)),
                             (''is_active'', dict_get prompt_data ''is_active'' (JBool True)),
                             (''variables'', dict_get prompt_data ''variables'' (JDict [])),
                             (''tone'', dict_get prompt_data ''tone'' (JStr ''professional'')),
                             (''target_audience'',
                                dict_get prompt_data ''target_audience'' (JStr ''general'')),
                             (''writing_style'',
                                dict_get prompt_data ''writing_style'' (JStr ''descriptive'')),
                             (''seo_keywords_focus'',
                                dict_get prompt_data ''seo_keywords_focus'' (JStr ''balanced'')),
                             (''description_length'',
                                dict_get prompt_data ''description_length'' (JStr ''medium'')),
                             (''key_features'', dict_get prompt_data ''key_features'' (JList [])),
                             (''brand_voice'', dict_get prompt_data ''brand_voice''
                                (JDict [(''personality'', JStr ''professional''),
                                        (''emotion'', JStr ''neutral''),
                                        (''formality'', JStr ''formal'')])),
                             (''industry_specific'', dict_get prompt_data ''industry_specific''
                                (JDict [(''industry'', JNull),
                                        (''specializations'', JList []),
                                        (''technical_level'', JStr ''moderate'')]))] of
                       Inl e \<Rightarrow> (d, Error e, 500)
                     | Inr prompt \<Rightarrow>
                         (add_prompt (mapped prompt) d,
                          Prompt_reply ''Prompt created successfully''
                            (persisted (mapped prompt) d),
                          201)))))"

text \<open>
  \<^verbatim>\<open>PromptService.update_prompt\<close>. \<^verbatim>\<open>setattr(prompt, field, value)\<close> sets a declared
  column or makes a plain attribute; none of the names of \<^verbatim>\<open>updateable_fields\<close> is
  \<^verbatim>\<open>id\<close>, \<^verbatim>\<open>store_id\<close> or \<^verbatim>\<open>updated_at\<close>. The flush writes the mapped attributes.
\<close>

definition updateable_fields :: "string list" where
  "updateable_fields =
     [''name'', ''description'', ''template'', ''is_default'', ''is_active'',
      ''variables'', ''tone'', ''target_audience'', ''writing_style'',
      ''seo_keywords_focus'', ''description_length'', ''key_features'',
      ''brand_voice'', ''industry_specific'', ''custom_instructions'',
      ''example_description'', ''avoid_words'', ''must_include_elements'',
      ''template_sections'']"

definition setattr :: "Prompt entity \<Rightarrow> string \<Rightarrow> json \<Rightarrow> Prompt entity" where
  "setattr p field v =
     (if field \<in> set Prompt_columns
      then p\<lparr>mapped := (mapped p)\<lparr>columns := AList.update field v (columns (mapped p))\<rparr>\<rparr>
      else set_plain p field v)"

definition set_fields :: "string list \<Rightarrow> dict \<Rightarrow> Prompt entity \<Rightarrow> Prompt entity" where
  "set_fields names prompt_data prompt =
     fold (\<lambda>field p. case map_of prompt_data field of
                        None \<Rightarrow> p
                      | Some v \<Rightarrow> setattr p field v) names prompt"

definition update_prompt ::
  "'tmpl jinja2 \<Rightarrow> nat \<Rightarrow> nat \<Rightarrow> nat \<Rightarrow> nat \<Rightarrow> dict \<Rightarrow> db \<Rightarrow> db \<times> reply \<times> nat" where
  "update_prompt jj now store_id user_id prompt_id prompt_data d =
     (case query_store d store_id user_id of
        None \<Rightarrow> (d, Error ''Store not found'', 404)
      | Some store \<Rightarrow>
          (case query_prompt d prompt_id store_id of
             None \<Rightarrow> (d, Error ''Prompt not found'', 404)
           | Some prompt \<Rightarrow>
               (case (case map_of prompt_data ''template'' of
                        None \<Rightarrow> None
                      | Some source \<Rightarrow>
                          (case Template jj source of Inl e \<Rightarrow> Some e | Inr t \<Rightarrow> None)) of
                  Some e \<Rightarrow> (d, Error (''Invalid template syntax: '' @ e), 400)
                | None \<Rightarrow>
                    (let prompt' = set_fields updateable_fields prompt_data prompt;
                         row = (mapped prompt')\<lparr>Prompt_updated_at := Some now\<rparr>
                     in (save_prompt row d,
                         Prompt_reply ''Prompt updated successfully'' row,
                         200)))))"

text \<open>
  A stored prompt has a parseable template body when the attribute that
  \<^verbatim>\<open>render_prompt\<close> reads, \<^verbatim>\<open>template\<close>, can be read from the loaded object and the
  engine's constructor accepts it.
\<close>

definition parseable :: "'tmpl jinja2 \<Rightarrow> Prompt \<Rightarrow> bool" where
  "parseable jj p =
     (case getattr ''Prompt'' (load p) ''template'' of
        Inl e \<Rightarrow> False
      | Inr source \<Rightarrow> (case Template jj source of Inl e \<Rightarrow> False | Inr t \<Rightarrow> True))"


section \<open>The SEO service\<close>

text \<open>
  \<^verbatim>\<open>SEOService._get_optimized_description\<close>, lines 35 to 41: the active prompt of the
  store, or a default prompt that is added to the session and committed; the query may
  raise.
\<close>

definition get_active_prompt :: "nat \<Rightarrow> session \<Rightarrow> (string + Prompt entity) \<times> session" where
  "get_active_prompt store_id s =
     (case query_active_prompt (working s) store_id of
        Inl e \<Rightarrow> (Inl e, s)
      | Inr (Some prompt) \<Rightarrow> (Inr prompt, s)
      | Inr None \<Rightarrow>
          (let prompt = create_default_prompt store_id
           in (Inr (prompt\<lparr>mapped := persisted (mapped prompt) (working s)\<rparr>),
               commit (s\<lparr>working := add_prompt (mapped prompt) (working s)\<rparr>))))"

text \<open>Lines 44 to 66: the context of the template.\<close>

definition opt_str :: "string option \<Rightarrow> json" where
  "opt_str x = (case x of None \<Rightarrow> JNull | Some s \<Rightarrow> JStr s)"

definition build_context :: "json \<Rightarrow> string \<Rightarrow> dict \<Rightarrow> dict" where
  "build_context original_description product_title store_preferences =
     [(''product_title'', JStr product_title),
      (''original_description'', original_description),
      (''tone'', dict_get store_preferences ''tone'' (JStr ''professional'')),
      (''target_audience'', dict_get store_preferences ''target_audience'' (JStr ''general'')),
      (''writing_style'', dict_get store_preferences ''writing_style'' (JStr ''descriptive'')),
      (''seo_keywords_focus'',
         dict_get store_preferences ''seo_keywords_focus'' (JStr ''balanced'')),
      (''description_length'',
         dict_get store_preferences ''description_length'' (JStr ''medium'')),
      (''key_features'', dict_get store_preferences ''key_features'' (JList [])),
      (''brand_voice'', dict_get store_preferences ''brand_voice''
         (JDict [(''personality'', JStr ''professional''),
                 (''emotion'', JStr ''neutral''),
                 (''formality'', JStr ''formal'')])),
      (''industry_specific'', dict_get store_preferences ''industry_specific''
         (JDict [(''industry'', JNull),
                 (''specializations'', JList []),
                 (''technical_level'', JStr ''moderate'')])),
      (''custom_instructions'', dict_get store_preferences ''custom_instructions'' JNull),
      (''avoid_words'', dict_get store_preferences ''avoid_words'' (JList [])),
      (''must_include_elements'',
         dict_get store_preferences ''must_include_elements'' (JList []))]"

text \<open>
  Lines 68 to 75: the render, and on any exception one more render, of
  \<^verbatim>\<open>Prompt.create_default_prompt(store_id)\<close>, outside any inner \<^verbatim>\<open>try\<close>. The result
  names the prompt that \<^verbatim>\<open>prompt\<close> is bound to afterwards.
\<close>

definition render_with_fallback ::
  "'tmpl jinja2 \<Rightarrow> nat \<Rightarrow> Prompt entity \<Rightarrow> dict \<Rightarrow> string + Prompt entity \<times> string" where
  "render_with_fallback jj store_id prompt context =
     (case render_prompt jj prompt context of
        Inr prompt_text \<Rightarrow> Inr (prompt, prompt_text)
      | Inl e \<Rightarrow>
          (let prompt' = create_default_prompt store_id
           in case render_prompt jj prompt' context of
                Inr prompt_text \<Rightarrow> Inr (prompt', prompt_text)
              | Inl e' \<Rightarrow> Inl e'))"

text \<open>
  \<^verbatim>\<open>SEOService._get_optimized_description\<close>. The outer \<^verbatim>\<open>except\<close> raises every
  exception again as \<^verbatim>\<open>Exception(f"Failed to generate optimized description: ...")\<close>.
  \<^verbatim>\<open>store_preferences.get\<close> raises when the store's preferences are \<^verbatim>\<open>None\<close>.
  The function returns the session too: the default prompt may have been committed.
\<close>

definition generation_failed :: "string \<Rightarrow> string" where
  "generation_failed e = ''Failed to generate optimized description: '' @ e"

definition SEOService_get_optimized_description ::
  "'tmpl jinja2 \<Rightarrow> provider \<Rightarrow> json \<Rightarrow> string \<Rightarrow> dict option \<Rightarrow> nat \<Rightarrow> session
     \<Rightarrow> session \<times> (string + string)" where
  "SEOService_get_optimized_description jj generate_content original_description
       product_title store_preferences store_id s =
     (case get_active_prompt store_id s of
        (Inl e, s1) \<Rightarrow> (s1, Inl (generation_failed e))
      | (Inr prompt, s1) \<Rightarrow>
          (case store_preferences of
             None \<Rightarrow> (s1, Inl (generation_failed (no_attribute ''NoneType'' ''get'')))
           | Some preferences \<Rightarrow>
               (case render_with_fallback jj store_id prompt
                       (build_context original_description product_title preferences) of
                  Inl e \<Rightarrow> (s1, Inl (generation_failed e))
                | Inr (prompt', prompt_text) \<Rightarrow>
                    (case generate_content prompt_text of
                       Inl e \<Rightarrow> (s1, Inl (generation_failed e))
                     | Inr text \<Rightarrow>
                         (case increment_usage prompt' of
                            Inl e \<Rightarrow> (s1, Inl (generation_failed e))
                          | Inr counted \<Rightarrow> (s1, Inr (ensure_html_formatting text)))))))"

text \<open>
  \<^verbatim>\<open>SEOService.optimize_product_description\<close>. The argument
  \<^verbatim>\<open>product.original_description\<close> of line 124 is evaluated before the call of line 123.
  Lines 131 to 133 assign the declared column \<^verbatim>\<open>optimized_description\<close> and make the
  plain attributes \<^verbatim>\<open>is_optimized\<close> and \<^verbatim>\<open>last_optimized\<close>.
\<close>

definition optimized :: "string \<Rightarrow> nat \<Rightarrow> Product entity \<Rightarrow> Product entity" where
  "optimized optimized_text now product =
     set_plain
       (set_plain (product\<lparr>mapped := (mapped product)\<lparr>optimized_description := Some optimized_text\<rparr>\<rparr>)
          ''is_optimized'' (JBool True))
       ''last_optimized'' (JNum (int now))"

definition SEOService_optimize_product_description ::
  "'tmpl jinja2 \<Rightarrow> provider \<Rightarrow> nat \<Rightarrow> nat \<Rightarrow> nat \<Rightarrow> nat \<Rightarrow> db \<Rightarrow> db \<times> reply \<times> nat" where
  "SEOService_optimize_product_description jj generate_content now user_id store_id
       product_id d =
     (case query_store d store_id user_id of
        None \<Rightarrow> (d, Error ''Store not found'', 404)
      | Some store \<Rightarrow>
          (case query_product d product_id store_id of
             None \<Rightarrow> (d, Error ''Product not found'', 404)
           | Some product \<Rightarrow>
               (case getattr ''Product'' product ''original_description'' of
                  Inl e \<Rightarrow> (committed (rollback (begin_session d)), Error e, 500)
                | Inr original \<Rightarrow>
                    (case SEOService_get_optimized_description jj generate_content
                            original (title (mapped product))
                            (prompt_preferences store) store_id (begin_session d) of
                       (s, Inl e) \<Rightarrow> (committed (rollback s), Error e, 500)
                     | (s, Inr optimized_text) \<Rightarrow>
                         (let product' = optimized optimized_text now product
                          in (committed
                                (commit (s\<lparr>working := save_product (mapped product') (working s)\<rparr>)),
                              Optimized ''Product description optimized successfully''
                                (mapped product'),
                              200))))))"

text \<open>
  \<^verbatim>\<open>SEOService.optimize_all_products\<close>: the loop of lines 173 to 195 with its two
  accumulators, then the commit and the reply of lines 197 to 207.
\<close>

fun SEOService_optimize_loop ::
  "'tmpl jinja2 \<Rightarrow> provider \<Rightarrow> nat \<Rightarrow> dict option \<Rightarrow> nat \<Rightarrow> Product entity list \<Rightarrow> session
     \<Rightarrow> Product list \<Rightarrow> (nat \<times> string) list
     \<Rightarrow> session \<times> Product list \<times> (nat \<times> string) list" where
  "SEOService_optimize_loop jj generate_content now preferences store_id [] s
       optimized_products errors = (s, optimized_products, errors)"
| "SEOService_optimize_loop jj generate_content now preferences store_id (product # rest) s
       optimized_products errors =
     (case getattr ''Product'' product ''original_description'' of
        Inl e \<Rightarrow>
          SEOService_optimize_loop jj generate_content now preferences store_id rest s
            optimized_products (errors @ [(Product_id (mapped product), e)])
      | Inr original \<Rightarrow>
          (case SEOService_get_optimized_description jj generate_content
                  original (title (mapped product)) preferences store_id s of
             (s1, Inr optimized_text) \<Rightarrow>
               (let product' = optimized optimized_text now product
                in SEOService_optimize_loop jj generate_content now preferences store_id rest
                     (s1\<lparr>working := save_product (mapped product') (working s1)\<rparr>)
                     (optimized_products @ [mapped product']) errors)
           | (s1, Inl e) \<Rightarrow>
               SEOService_optimize_loop jj generate_content now preferences store_id rest s1
                 optimized_products (errors @ [(Product_id (mapped product), e)])))"

definition successfully_optimized :: "nat \<Rightarrow> string" where
  "successfully_optimized n = ''Successfully optimized '' @ string_of_nat n @ '' products''"

definition SEOService_optimize_all_products ::
  "'tmpl jinja2 \<Rightarrow> provider \<Rightarrow> nat \<Rightarrow> nat \<Rightarrow> nat \<Rightarrow> db \<Rightarrow> db \<times> reply \<times> nat" where
  "SEOService_optimize_all_products jj generate_content now user_id store_id d =
     (case query_store d store_id user_id of
        None \<Rightarrow> (d, Error ''Store not found'', 404)
      | Some store \<Rightarrow>
          (case SEOService_optimize_loop jj generate_content now (prompt_preferences store)
                  store_id (query_products d store_id) (begin_session d) [] [] of
             (s, optimized_products, errors) \<Rightarrow>
               (committed (commit s),
                Batch (successfully_optimized (length optimized_products)) optimized_products
                  (if errors \<noteq> [] then Some errors else None),
                if errors = [] then 200 else 207)))"

section \<open>The product service\<close>

text \<open>
  \<^verbatim>\<open>ProductService._get_optimized_description\<close>. The prompt is a literal, extended by
  up to two f-string lines, then filled by \<^verbatim>\<open>str.format(title=..., description=...)\<close>.
  \<^verbatim>\<open>str.format\<close> raises on a brace it cannot resolve; it and the conversion \<^verbatim>\<open>str()\<close>
  of a preference value in an f-string are Python built-ins and parameters here.
\<close>

definition base_prompt :: string where
  "base_prompt = concat
    [''\<newline>'',
     ''            As an expert e-commerce copywriter and SEO specialist, optimize the following product description \<newline>'',
     ''            to be more engaging, SEO-friendly, and conversion-focused. Maintain the key product features \<newline>'',
     ''            while improving readability and search engine optimization.\<newline>'',
     ''\<newline>'',
     ''            Product Title: {title}\<newline>'',
     ''            Original Description: {description}\<newline>'',
     ''\<newline>'',
     ''            Guidelines:\<newline>'',
     ''            - Maintain a professional yet engaging tone\<newline>'',
     ''            - Include relevant keywords naturally\<newline>'',
     ''            - Structure content with clear sections\<newline>'',
     ''            - Focus on benefits and value propositions\<newline>'',
     ''            - Ensure mobile-friendly formatting\<newline>'',
     ''            - Keep HTML formatting for Shopify\<newline>'',
     ''            '']"


record builtins =
  format :: "string \<Rightarrow> string \<Rightarrow> json \<Rightarrow> string + string"
  str :: "json \<Rightarrow> string"

definition preference :: "dict option \<Rightarrow> string \<Rightarrow> json option" where
  "preference store_preferences key =
     (case store_preferences of
        None \<Rightarrow> None
      | Some d \<Rightarrow>
          (if d \<noteq> [] \<and> truthy (dict_get d key JNull) then map_of d key else None))"

definition ProductService_get_optimized_description ::
  "builtins \<Rightarrow> provider \<Rightarrow> json \<Rightarrow> string \<Rightarrow> dict option \<Rightarrow> string + string" where
  "ProductService_get_optimized_description py generate_content original_description
       product_title store_preferences =
     (let base1 = (case preference store_preferences ''tone'' of
                     Some tone \<Rightarrow> base_prompt @ ''\<newline>- Use a '' @ str py tone @ '' tone''
                   | None \<Rightarrow> base_prompt);
          base2 = (case preference store_preferences ''length'' of
                     Some len \<Rightarrow>
                       base1 @ ''\<newline>- Aim for approximately '' @ str py len @ '' words''
                   | None \<Rightarrow> base1)
      in case format py base2 product_title original_description of
           Inl e \<Rightarrow> Inl (generation_failed e)
         | Inr prompt \<Rightarrow>
             (case generate_content prompt of
                Inl e \<Rightarrow> Inl (generation_failed e)
              | Inr text \<Rightarrow> Inr (ensure_html_formatting text)))"

text \<open>
  \<^verbatim>\<open>ProductService.optimize_product_description\<close>. Line 262 reads
  \<^verbatim>\<open>product.original_description\<close> first, and \<^verbatim>\<open>product.description\<close> when that is
  falsy. Lines 268 to 272 assign the declared column \<^verbatim>\<open>optimized_description\<close> and make
  plain attributes of the rest.
\<close>

definition ProductService_optimize_product_description ::
  "builtins \<Rightarrow> provider \<Rightarrow> nat \<Rightarrow> nat \<Rightarrow> nat \<Rightarrow> nat \<Rightarrow> db \<Rightarrow> db \<times> reply \<times> nat" where
  "ProductService_optimize_product_description py generate_content now user_id store_id
       product_id d =
     (case query_store d store_id user_id of
        None \<Rightarrow> (d, Error ''Store not found'', 404)
      | Some store \<Rightarrow>
          (case query_product d product_id store_id of
             None \<Rightarrow> (d, Error ''Product not found'', 404)
           | Some product \<Rightarrow>
               (case getattr ''Product'' product ''original_description'' of
                  Inl e \<Rightarrow> (d, Error e, 500)
                | Inr original \<Rightarrow>
                    (case ProductService_get_optimized_description py generate_content
                            (py_or original (opt_str (description (mapped product))))
                            (title (mapped product)) (prompt_preferences store) of
                       Inl e \<Rightarrow> (d, Error e, 500)
                     | Inr optimized_text \<Rightarrow>
                         (let product' =
                                set_plain
                                  (set_plain (optimized optimized_text now product)
                                     ''original_description''
                                     (py_or original (opt_str (description (mapped product)))))
                                  ''optimization_service'' (JStr ''gemini'')
                          in (save_product (mapped product') d,
                              Optimized ''Product description optimized successfully''
                                (mapped product'),
                              200))))))"

text \<open>
  \<^verbatim>\<open>ProductService.optimize_all_products\<close>: the loop of lines 310 to 328 has one
  accumulator; the \<^verbatim>\<open>except\<close> branch prints and continues.
\<close>

fun ProductService_optimize_loop ::
  "builtins \<Rightarrow> provider \<Rightarrow> nat \<Rightarrow> dict option \<Rightarrow> Product entity list \<Rightarrow> db \<Rightarrow> Product list
     \<Rightarrow> db \<times> Product list" where
  "ProductService_optimize_loop py generate_content now preferences [] d optimized_products =
     (d, optimized_products)"
| "ProductService_optimize_loop py generate_content now preferences (product # rest) d
       optimized_products =
     (case getattr ''Product'' product ''original_description'' of
        Inl e \<Rightarrow>
          ProductService_optimize_loop py generate_content now preferences rest d
            optimized_products
      | Inr original \<Rightarrow>
          (case ProductService_get_optimized_description py generate_content
                  original (title (mapped product)) preferences of
             Inr optimized_text \<Rightarrow>
               (let product' = optimized optimized_text now product
                in ProductService_optimize_loop py generate_content now preferences rest
                     (save_product (mapped product') d) (optimized_products @ [mapped product']))
           | Inl e \<Rightarrow>
               ProductService_optimize_loop py generate_content now preferences rest d
                 optimized_products))"

definition ProductService_optimize_all_products ::
  "builtins \<Rightarrow> provider \<Rightarrow> nat \<Rightarrow> nat \<Rightarrow> nat \<Rightarrow> db \<Rightarrow> db \<times> reply \<times> nat" where
  "ProductService_optimize_all_products py generate_content now user_id store_id d =
     (case query_store d store_id user_id of
        None \<Rightarrow> (d, Error ''Store not found'', 404)
      | Some store \<Rightarrow>
          (case ProductService_optimize_loop py generate_content now (prompt_preferences store)
                  (query_products d store_id) d [] of
             (d', optimized_products) \<Rightarrow>
               (d',
                Batch (successfully_optimized (length optimized_products)) optimized_products
                  None,
                200)))"

text \<open>
  \<^verbatim>\<open>ProductService.deploy_optimization\<close>. Line 365 reads \<^verbatim>\<open>product.is_optimized\<close>.
  \<^verbatim>\<open>requests.put\<close> answers with a status code and a text, or raises
  \<^verbatim>\<open>RequestException\<close>; the URL, the headers and the body of the request are made of the
  store and the product. Lines 389 to 391 assign the declared column \<^verbatim>\<open>description\<close>
  and make plain attributes of \<^verbatim>\<open>last_deployed\<close> and \<^verbatim>\<open>deployment_status\<close>.
\<close>

datatype put_result = Response nat string | RequestException string

type_synonym requests_put = "Store \<Rightarrow> Product \<Rightarrow> put_result"

definition str_truthy :: "string option \<Rightarrow> bool" where
  "str_truthy x = (case x of None \<Rightarrow> False | Some s \<Rightarrow> s \<noteq> [])"

definition deploy_optimization ::
  "requests_put \<Rightarrow> nat \<Rightarrow> nat \<Rightarrow> nat \<Rightarrow> nat \<Rightarrow> db \<Rightarrow> db \<times> reply \<times> nat" where
  "deploy_optimization put now user_id store_id product_id d =
     (case query_store d store_id user_id of
        None \<Rightarrow> (d, Error ''Store not found'', 404)
      | Some store \<Rightarrow>
          (if \<not> str_truthy (access_token store) then (d, Error ''Store not authenticated'', 401)
           else
             (case query_product d product_id store_id of
                None \<Rightarrow> (d, Error ''Product not found'', 404)
              | Some product \<Rightarrow>
                  (case getattr ''Product'' product ''is_optimized'' of
                     Inl e \<Rightarrow> (d, Error e, 500)
                   | Inr flag \<Rightarrow>
                       (if \<not> truthy flag \<or> \<not> str_truthy (optimized_description (mapped product))
                        then (d, Error ''Product description not optimized yet'', 400)
                        else
                          (case put store (mapped product) of
                             RequestException e \<Rightarrow> (d, Error (''Network error: '' @ e), 500)
                           | Response status_code text \<Rightarrow>
                               (if status_code \<notin> set [200, 201]
                                then (d,
                                      Error (''Failed to update product in Shopify: '' @ text),
                                      status_code)
                                else
                                  (let row = (mapped product)
                                         \<lparr>description := optimized_description (mapped product)\<rparr>
                                   in (save_product row d,
                                       Deployed ''Description deployed successfully'' row,
                                       200)))))))))"

text \<open>
  \<^verbatim>\<open>ProductService.deploy_all_optimizations\<close>: the query of lines 427 to 433, then the
  loop of lines 442 to 465 with its three accumulators. \<^verbatim>\<open>deploy_optimization\<close> catches
  its own exceptions, so the \<^verbatim>\<open>except\<close> branch of the loop is not taken. The
  \<^verbatim>\<open>except\<close> of line 475 has no rollback.
\<close>

definition error_of :: "reply \<Rightarrow> string" where
  "error_of r = (case r of Error e \<Rightarrow> e | _ \<Rightarrow> ''Unknown error'')"

fun deploy_loop ::
  "requests_put \<Rightarrow> nat \<Rightarrow> nat \<Rightarrow> nat \<Rightarrow> Product entity list \<Rightarrow> db \<Rightarrow> nat \<Rightarrow> nat
     \<Rightarrow> (nat \<times> string \<times> string) list
     \<Rightarrow> db \<times> nat \<times> nat \<times> (nat \<times> string \<times> string) list" where
  "deploy_loop put now user_id store_id [] d deployed_count failed_count results =
     (d, deployed_count, failed_count, results)"
| "deploy_loop put now user_id store_id (product # rest) d deployed_count failed_count results =
     (case deploy_optimization put now user_id store_id (Product_id (mapped product)) d of
        (d', result, status_code) \<Rightarrow>
          (if status_code \<in> set [200, 201]
           then deploy_loop put now user_id store_id rest d' (deployed_count + 1) failed_count
                  (results @
                   [(Product_id (mapped product), ''success'', ''Deployed successfully'')])
           else deploy_loop put now user_id store_id rest d' deployed_count (failed_count + 1)
                  (results @ [(Product_id (mapped product), ''failed'', error_of result)])))"

definition deploy_all_optimizations ::
  "requests_put \<Rightarrow> nat \<Rightarrow> nat \<Rightarrow> nat \<Rightarrow> db \<Rightarrow> db \<times> reply \<times> nat" where
  "deploy_all_optimizations put now user_id store_id d =
     (case query_store d store_id user_id of
        None \<Rightarrow> (d, Error ''Store not found'', 404)
      | Some store \<Rightarrow>
          (if \<not> str_truthy (access_token store) then (d, Error ''Store not authenticated'', 401)
           else
             (case query_pending_deployment d store_id of
                Inl e \<Rightarrow> (d, Error e, 500)
              | Inr ps \<Rightarrow>
                  (if ps = [] then (d, Message ''No optimized products pending deployment'', 200)
                   else
                     (case deploy_loop put now user_id store_id ps d 0 0 [] of
                        (d', deployed_count, failed_count, results) \<Rightarrow>
                          (d',
                           Deployment ''Batch deployment completed'' (length ps) deployed_count
                             failed_count results,
                           if failed_count = 0 then 200 else 207))))))"


section \<open>Outcomes of a batch\<close>

text \<open>
  What the claims about the batch runs speak of. The items of a batch are the products of
  the store, in table order. The outcome of the per-item operation on an item is the
  result of lines 176 to 181 (lines 313 to 317 in the product service) for it, run on the
  database the batch starts from: \<open>Inr\<close> the text to store, or \<open>Inl\<close> the message of
  the exception. The success entries of a batch are the optimised items in input order,
  the failure entries the pairs of a failed item's key and its message, in input order.
\<close>

definition store_items :: "nat \<Rightarrow> db \<Rightarrow> Product list" where
  "store_items store_id d = filter (\<lambda>p. Product_store_id p = store_id) (products d)"

definition SEOService_outcome ::
  "'tmpl jinja2 \<Rightarrow> provider \<Rightarrow> dict option \<Rightarrow> nat \<Rightarrow> db \<Rightarrow> Product \<Rightarrow> string + string" where
  "SEOService_outcome jj generate_content preferences store_id d p =
     (case getattr ''Product'' (load p) ''original_description'' of
        Inl e \<Rightarrow> Inl e
      | Inr original \<Rightarrow>
          snd (SEOService_get_optimized_description jj generate_content original (title p)
                 preferences store_id (begin_session d)))"

definition ProductService_outcome ::
  "builtins \<Rightarrow> provider \<Rightarrow> dict option \<Rightarrow> Product \<Rightarrow> string + string" where
  "ProductService_outcome py generate_content preferences p =
     (case getattr ''Product'' (load p) ''original_description'' of
        Inl e \<Rightarrow> Inl e
      | Inr original \<Rightarrow>
          ProductService_get_optimized_description py generate_content original (title p)
            preferences)"

definition successes :: "(Product \<Rightarrow> string + string) \<Rightarrow> nat \<Rightarrow> Product list \<Rightarrow> Product list" where
  "successes outcome now items =
     List.map_filter
       (\<lambda>p. case outcome p of
               Inr t \<Rightarrow> Some (mapped (optimized t now (load p)))
             | Inl e \<Rightarrow> None)
       items"

definition failures :: "(Product \<Rightarrow> string + string) \<Rightarrow> Product list \<Rightarrow> (nat \<times> string) list" where
  "failures outcome items =
     List.map_filter (\<lambda>p. case outcome p of Inl e \<Rightarrow> Some (Product_id p, e) | Inr t \<Rightarrow> None)
       items"


section \<open>Sample data\<close>

text \<open>
  A store of user 1 whose stored preferences hold a brand voice with a personality only,
  a store of user 1 with the default preferences of the column, and payloads that pass the
  validation of required fields and bring an emotion: one changes the tone, the other
  repeats the three required values of the default preferences.
\<close>

definition sample_store :: Store where
  "sample_store =
     \<lparr> Store_id = 1, Store_user_id = 1, store_url = ''shop.example'',
       access_token = Some ''token'', api_version = ''2024-01'',
       prompt_preferences =
         Some [(''brand_voice'', JDict [(''personality'', JStr ''professional'')])],
       Store_updated_at = None \<rparr>"

definition sample_db :: db where
  "sample_db = \<lparr> stores = [sample_store], products = [], prompts = [], next_prompt_id = 1 \<rparr>"

definition sample_payload :: dict where
  "sample_payload =
     [(''tone'', JStr ''casual''), (''target_audience'', JStr ''general''),
      (''writing_style'', JStr ''narrative''),
      (''brand_voice'', JDict [(''emotion'', JStr ''x'')])]"

definition new_store :: Store where
  "new_store = sample_store\<lparr>prompt_preferences := Some default_preferences\<rparr>"

definition new_db :: db where
  "new_db = \<lparr> stores = [new_store], products = [], prompts = [], next_prompt_id = 1 \<rparr>"

definition emotion_payload :: dict where
  "emotion_payload =
     [(''tone'', JStr ''professional''), (''target_audience'', JStr ''general''),
      (''writing_style'', JStr ''descriptive''),
      (''brand_voice'', JDict [(''emotion'', JStr ''x'')])]"

text \<open>
  A stand-in template engine (it rejects the source \<open>{% if %}\<close> and renders a template as
  its source followed by the product title), a stand-in provider (it fails on the prompt of
  the second product), one that always fails and one that always answers, stand-ins for
  the Python built-ins (\<open>format\<close> yields \<open>Describe\<close> and the title), three products
  of the sample store, a stored prompt whose \<open>response\<close> column holds a given source,
  and the database of all these.
\<close>

definition sample_jinja :: "string jinja2" where
  "sample_jinja =
     \<lparr> Template = (\<lambda>source. case source of
                       JStr s \<Rightarrow> (if s = ''{% if %}'' then Inl ''unexpected end of template''
                                  else Inr s)
                     | _ \<Rightarrow> Inl ''not a template''),
       render = (\<lambda>template context.
                  Inr (template @ '' '' @
                       (case dict_get context ''product_title'' JNull of
                          JStr x \<Rightarrow> x
                        | _ \<Rightarrow> ''''))) \<rparr>"

definition sample_provider :: provider where
  "sample_provider prompt =
     (if prompt = ''Describe Mug 2'' then Inl ''provider error'' else Inr ''Hello world'')"

definition failing_provider :: provider where
  "failing_provider prompt = Inl ''provider error''"

definition steady_provider :: provider where
  "steady_provider prompt = Inr ''<div>Hi</div>''"

definition sample_builtins :: builtins where
  "sample_builtins =
     \<lparr> format = (\<lambda>template title description.
                  if title = ''Mug {'' then Inl ''Single } encountered in format string''
                  else Inr (''Describe '' @ title)),
       str = (\<lambda>v. case v of JStr s \<Rightarrow> s | _ \<Rightarrow> ''?'') \<rparr>"

definition mug :: "nat \<Rightarrow> string \<Rightarrow> Product" where
  "mug n name =
     \<lparr> Product_id = n, Product_store_id = 1, shopify_product_id = ''gid'', title = name,
       description = Some ''A mug'', optimized_description = None, status = ''pending'' \<rparr>"

definition prompt_with :: "string \<Rightarrow> Prompt" where
  "prompt_with source =
     \<lparr> Prompt_id = Some 1, Prompt_store_id = 1, Prompt_updated_at = None,
       columns = [(''template_name'', JStr ''Seasonal''), (''content'', JStr ''Offers''),
                  (''response'', JStr source)] \<rparr>"

definition shop :: "Prompt list \<Rightarrow> db" where
  "shop ps =
     \<lparr> stores = [sample_store],
       products = [mug 1 ''Mug 1'', mug 2 ''Mug 2'', mug 3 ''Mug 3''],
       prompts = ps,
       next_prompt_id = Suc (length ps) \<rparr>"

text \<open>Request bodies for the prompt service.\<close>

definition retoned :: dict where
  "retoned = [(''tone'', JStr ''casual'')]"

definition new_prompt :: "string \<Rightarrow> dict" where
  "new_prompt source = [(''name'', JStr ''Seasonal''), (''template'', JStr source)]"

section \<open>Output normalisation\<close>





lemma not_space_lt: "\<not> is_space (CHR ''<'')"
  by (simp add: is_space_def)





section \<open>Preference updates\<close>

lemma sample_query_store: "query_store sample_db 1 1 = Some sample_store"
  by (simp add: query_store_def sample_db_def sample_store_def)

lemma first_missing_is_first:
  assumes "first_missing names payload = Some field"
  shows "\<exists>i < length names. names ! i = field \<and> map_of payload field = None \<and>
           (\<forall>j < i. map_of payload (names ! j) \<noteq> None)"
  using assms unfolding first_missing_def find_Some_iff by auto

lemma first_missing_exists:
  assumes "f \<in> set names" "map_of payload f = None"
  shows "\<exists>field. first_missing names payload = Some field"
  using assms unfolding first_missing_def
  by (cases "find (\<lambda>field. map_of payload field = None) names") (auto simp: find_None_iff)

text \<open>
  C9: for a store that the query finds and a payload that lacks one of \<open>tone\<close>,
  \<open>target_audience\<close>, \<open>writing_style\<close>, the update answers 400 with
  \<open>Missing required field\<close> and the first of the three that is missing (every required
  field before it is present), and the database, hence the stored preferences, is unchanged.
\<close>

theorem C9_missing_required_field:
  assumes store: "query_store d store_id user_id = Some store"
    and missing: "f \<in> set required_fields" "map_of preferences f = None"
  shows "\<exists>i < length required_fields.
           map_of preferences (required_fields ! i) = None \<and>
           (\<forall>j < i. map_of preferences (required_fields ! j) \<noteq> None) \<and>
           update_prompt_preferences now store_id user_id preferences d =
             (d, Error (''Missing required field: '' @ required_fields ! i), 400)"
proof -
  from first_missing_exists [OF missing] obtain field
    where fm: "first_missing required_fields preferences = Some field" ..
  from first_missing_is_first [OF fm] obtain i where i: "i < length required_fields"
    "required_fields ! i = field" "map_of preferences field = None"
    "\<forall>j < i. map_of preferences (required_fields ! j) \<noteq> None"
    by blast
  have "update_prompt_preferences now store_id user_id preferences d =
          (d, Error (''Missing required field: '' @ field), 400)"
    by (simp add: update_prompt_preferences_def store fm)
  with i show ?thesis by auto
qed

theorem C9_missing_required_field_witness:
  "update_prompt_preferences 7 1 1 [(''tone'', JStr ''casual''), (''writing_style'', JStr ''narrative'')]
     sample_db = (sample_db, Error ''Missing required field: target_audience'', 400)"
proof -
  have m: "''target_audience'' \<in> set required_fields"
    "map_of [(''tone'', JStr ''casual''), (''writing_style'', JStr ''narrative'')] ''target_audience'' = None"
    by (simp_all add: required_fields_def)
  from C9_missing_required_field [OF sample_query_store m, of 7]
  obtain i where i: "i < length required_fields"
    "map_of [(''tone'', JStr ''casual''), (''writing_style'', JStr ''narrative'')] (required_fields ! i) = None"
    "update_prompt_preferences 7 1 1 [(''tone'', JStr ''casual''), (''writing_style'', JStr ''narrative'')] sample_db =
       (sample_db, Error (''Missing required field: '' @ required_fields ! i), 400)"
    by blast
  from i(1) have "i = 0 \<or> i = 1 \<or> i = 2"
    by (auto simp: required_fields_def)
  with i(2) have "i = 1"
    by (auto simp: required_fields_def)
  with i(3) show ?thesis
    by (simp add: required_fields_def)
qed

text \<open>
  The example of the specification for the merge of \<open>brand_voice\<close>, the payload
  \<open>{brand_voice: {emotion: "x"}}\<close>, lacks the required field \<open>tone\<close>: the update is
  refused with 400. With the required fields, and with a tone that differs from the stored
  one, the stored brand voice is merged key by key.
\<close>

lemma example_payload_rejected:
  "update_prompt_preferences 7 1 1 [(''brand_voice'', JDict [(''emotion'', JStr ''x'')])] sample_db =
     (sample_db, Error ''Missing required field: tone'', 400)"
  by (simp only: update_prompt_preferences_def sample_query_store option.case)
     (simp add: first_missing_def required_fields_def)

lemma changed_tone_merges:
  "update_prompt_preferences 7 1 1 sample_payload sample_db =
     (sample_db\<lparr>stores :=
        [sample_store\<lparr>prompt_preferences :=
           Some [(''brand_voice'', JDict [(''personality'', JStr ''professional''),
                                          (''emotion'', JStr ''x'')]),
                 (''tone'', JStr ''casual''), (''target_audience'', JStr ''general''),
                 (''writing_style'', JStr ''narrative'')],
           Store_updated_at := Some 7\<rparr>]\<rparr>,
      Preferences ''Prompt preferences updated successfully''
        (Some [(''brand_voice'', JDict [(''personality'', JStr ''professional''),
                                        (''emotion'', JStr ''x'')]),
               (''tone'', JStr ''casual''), (''target_audience'', JStr ''general''),
               (''writing_style'', JStr ''narrative'')]),
      200)"
  by code_simp

text \<open>
  C7: a store with the default preferences receives an update that repeats the stored
  \<open>tone\<close>, \<open>target_audience\<close> and \<open>writing_style\<close> and brings
  \<open>brand_voice: {emotion: "x"}\<close>. The nested \<^verbatim>\<open>.update\<close> of line 77 changes the
  dictionary that the store object holds, so the assignment of line 81 assigns a value
  equal to the held one and the flush does not write the column: the update answers 200
  with the preferences as they were, the emotion still \<open>neutral\<close>, and only the time
  stamp of the row has changed.
\<close>

theorem C7_brand_voice_update_lost:
  "update_prompt_preferences 7 1 1 emotion_payload new_db =
     (new_db\<lparr>stores := [new_store\<lparr>Store_updated_at := Some 7\<rparr>]\<rparr>,
      Preferences ''Prompt preferences updated successfully'' (Some default_preferences),
      200) \<and>
   map_of default_preferences ''brand_voice'' =
     Some (JDict [(''personality'', JStr ''professional''), (''emotion'', JStr ''neutral''),
                  (''formality'', JStr ''formal'')]) \<and>
   merge_fields valid_fields emotion_payload (default_preferences, default_preferences, []) =
     Inr (AList.update ''brand_voice''
            (JDict [(''personality'', JStr ''professional''), (''emotion'', JStr ''x''),
                    (''formality'', JStr ''formal'')]) default_preferences,
          AList.update ''brand_voice''
            (JDict [(''personality'', JStr ''professional''), (''emotion'', JStr ''x''),
                    (''formality'', JStr ''formal'')]) default_preferences,
          [''writing_style'', ''target_audience'', ''tone''])"
  by code_simp

section \<open>Undeclared attributes\<close>

lemma getattr_load: "getattr cls (load r) name = Inl (no_attribute cls name)"
  by (simp add: getattr_def load_def)

lemma query_product_loaded:
  assumes "query_product d product_id store_id = Some product"
  shows "product = load (mapped product)"
  using assms by (auto simp: query_product_def load_def)

lemma query_prompt_loaded:
  assumes "query_prompt d prompt_id store_id = Some prompt"
  shows "prompt = load (mapped prompt)"
  using assms by (auto simp: query_prompt_def load_def)

lemma is_active_no_property:
  "filter_by ''prompts'' Prompt_columns [''store_id'', ''is_active''] =
     Some (no_property ''prompts'' ''is_active'')"
  by (simp add: filter_by_def Prompt_columns_def)

lemma is_optimized_no_property:
  "filter_by ''products'' Product_columns [''store_id'', ''is_optimized''] =
     Some (no_property ''products'' ''is_optimized'')"
  by (simp add: filter_by_def Product_columns_def)

lemma query_active_prompt_raises:
  "query_active_prompt d store_id = Inl (no_property ''prompts'' ''is_active'')"
  by (simp add: query_active_prompt_def is_active_no_property)

lemma get_active_prompt_raises:
  "get_active_prompt store_id s = (Inl (no_property ''prompts'' ''is_active''), s)"
  by (simp add: get_active_prompt_def query_active_prompt_raises)

lemma generation_raises:
  "SEOService_get_optimized_description jj generate_content original product_title
     preferences store_id s =
     (s, Inl (generation_failed (no_property ''prompts'' ''is_active'')))"
  by (simp add: SEOService_get_optimized_description_def get_active_prompt_raises)

lemma render_default_prompt:
  "render_prompt jj (create_default_prompt store_id) context =
     Inl (render_failed (no_attribute ''Prompt'' ''template''))"
  by (simp add: render_prompt_def create_default_prompt_def getattr_def)

lemma render_loaded_prompt:
  "render_prompt jj (load p) context =
     Inl (render_failed (no_attribute ''Prompt'' ''template''))"
  by (simp add: render_prompt_def getattr_load)

lemma fallback_fails:
  assumes "render_prompt jj prompt context = Inl e"
  shows "render_with_fallback jj store_id prompt context =
           Inl (render_failed (no_attribute ''Prompt'' ''template''))"
  by (simp add: render_with_fallback_def assms render_default_prompt)

lemma increment_usage_raises: "isl (increment_usage prompt)"
  by (simp add: increment_usage_def split: sum.splits)

lemma rollback_begin: "committed (rollback (begin_session d)) = d"
  by (simp add: rollback_def begin_session_def)

lemma SEOService_single_fails:
  assumes "query_store d store_id user_id = Some store"
    and "query_product d product_id store_id = Some product"
  shows "SEOService_optimize_product_description jj generate_content now user_id store_id
           product_id d =
         (d, Error (no_attribute ''Product'' ''original_description''), 500)"
proof -
  have "getattr ''Product'' product ''original_description'' =
          Inl (no_attribute ''Product'' ''original_description'')"
    using query_product_loaded [OF assms(2)] getattr_load [of "''Product''" "mapped product"]
    by simp
  then show ?thesis
    by (simp add: SEOService_optimize_product_description_def assms rollback_begin)
qed

lemma ProductService_single_fails:
  assumes "query_store d store_id user_id = Some store"
    and "query_product d product_id store_id = Some product"
  shows "ProductService_optimize_product_description py generate_content now user_id store_id
           product_id d =
         (d, Error (no_attribute ''Product'' ''original_description''), 500)"
proof -
  have "getattr ''Product'' product ''original_description'' =
          Inl (no_attribute ''Product'' ''original_description'')"
    using query_product_loaded [OF assms(2)] getattr_load [of "''Product''" "mapped product"]
    by simp
  then show ?thesis
    by (simp add: ProductService_optimize_product_description_def assms)
qed

lemma SEOService_single_database:
  "fst (SEOService_optimize_product_description jj generate_content now user_id store_id
          product_id d) = d"
proof (cases "query_store d store_id user_id")
  case None
  then show ?thesis
    by (simp add: SEOService_optimize_product_description_def)
next
  case (Some store)
  show ?thesis
  proof (cases "query_product d product_id store_id")
    case None
    with Some show ?thesis
      by (simp add: SEOService_optimize_product_description_def)
  next
    case (Some product)
    show ?thesis
      by (simp add: SEOService_single_fails [OF \<open>query_store d store_id user_id = Some store\<close> Some])
  qed
qed

lemma SEOService_single_status:
  "snd (snd (SEOService_optimize_product_description jj generate_content now user_id store_id
          product_id d)) \<in> {404, 500}"
proof (cases "query_store d store_id user_id")
  case None
  then show ?thesis
    by (simp add: SEOService_optimize_product_description_def)
next
  case (Some store)
  show ?thesis
  proof (cases "query_product d product_id store_id")
    case None
    with Some show ?thesis
      by (simp add: SEOService_optimize_product_description_def)
  next
    case (Some product)
    show ?thesis
      by (simp add: SEOService_single_fails [OF \<open>query_store d store_id user_id = Some store\<close> Some])
  qed
qed

lemma shop_store: "query_store (shop ps) 1 1 = Some sample_store"
  by (simp add: query_store_def shop_def sample_store_def)

lemma shop_mug_2: "query_product (shop ps) 2 1 = Some (load (mug 2 ''Mug 2''))"
  by (simp add: query_product_def shop_def mug_def)


section \<open>Single-item optimisation\<close>

text \<open>
  C4: no single-item optimisation succeeds. Whatever the engine, the provider and the
  database, \<open>SEOService.optimize_product_description\<close> answers 404 or 500 and leaves the
  database as it was: for a store and a product that the queries find, the read of
  \<open>product.original_description\<close> on line 124 raises. Behind it,
  \<open>_get_optimized_description\<close> returns no description on any arguments (the query of
  line 36 raises), \<open>prompt.increment_usage()\<close> raises on every prompt, and
  \<open>is_optimized\<close> and \<open>last_optimized\<close> are no columns of a product. So for store 1,
  product 1 and a provider that answers, the call ends with 500 and writes nothing.
\<close>

theorem C4_optimization_never_succeeds:
  "fst (SEOService_optimize_product_description jj generate_content now user_id store_id
          product_id d) = d \<and>
   snd (snd (SEOService_optimize_product_description jj generate_content now user_id store_id
          product_id d)) \<in> {404, 500} \<and>
   isl (snd (SEOService_get_optimized_description jj generate_content original product_title
               preferences store_id s)) \<and>
   isl (increment_usage prompt) \<and>
   increment_usage (load p) = Inl (no_attribute ''Prompt'' ''increment_usage'') \<and>
   ''is_optimized'' \<notin> set Product_columns \<and>
   ''last_optimized'' \<notin> set Product_columns \<and>
   SEOService_optimize_product_description sample_jinja steady_provider 7 1 1 1 (shop []) =
     (shop [], Error (no_attribute ''Product'' ''original_description''), 500)"
proof (intro conjI)
  show "SEOService_optimize_product_description sample_jinja steady_provider 7 1 1 1 (shop []) =
          (shop [], Error (no_attribute ''Product'' ''original_description''), 500)"
    by (rule SEOService_single_fails [OF shop_store])
       (simp add: query_product_def shop_def mug_def)
  show "increment_usage (load p) = Inl (no_attribute ''Prompt'' ''increment_usage'')"
    by (simp add: increment_usage_def getattr_load)
  show "snd (snd (SEOService_optimize_product_description jj generate_content now user_id
          store_id product_id d)) \<in> {404, 500}"
    by (rule SEOService_single_status)
  show "isl (increment_usage prompt)"
    by (rule increment_usage_raises)
qed (simp_all add: SEOService_single_database generation_raises Product_columns_def)

text \<open>
  C6: for a store and a product that the queries find, the single-item optimisation of
  either service fails at its first step after the two queries, the read of
  \<open>product.original_description\<close>: it answers 500 with the message of the exception,
  and the product table, hence the product's row with every field of it (the \<open>status\<close>
  included), is as before. A failure of the generation step of the SEO service, on any
  description and in any session, leaves the product table of the session as it was.
\<close>

theorem C6_failure_leaves_product:
  assumes store: "query_store d store_id user_id = Some store"
    and product: "query_product d product_id store_id = Some product"
  shows "(\<exists>d'. SEOService_optimize_product_description jj generate_content now user_id
                 store_id product_id d =
                 (d', Error (no_attribute ''Product'' ''original_description''), 500) \<and>
               products d' = products d \<and>
               query_product d' product_id store_id = Some product) \<and>
         ProductService_optimize_product_description py generate_content now user_id
           store_id product_id d =
           (d, Error (no_attribute ''Product'' ''original_description''), 500) \<and>
         (\<forall>original s s' e.
            SEOService_get_optimized_description jj generate_content original
              (title (mapped product)) (prompt_preferences store) store_id s = (s', Inl e) \<longrightarrow>
            products (committed (rollback s')) = products (committed s) \<and>
            products (working (rollback s')) = products (committed s))"
proof (intro conjI allI impI)
  from SEOService_single_fails [OF store product] product
  show "\<exists>d'. SEOService_optimize_product_description jj generate_content now user_id
               store_id product_id d =
               (d', Error (no_attribute ''Product'' ''original_description''), 500) \<and>
             products d' = products d \<and>
             query_product d' product_id store_id = Some product"
    by blast
  show "ProductService_optimize_product_description py generate_content now user_id
          store_id product_id d =
          (d, Error (no_attribute ''Product'' ''original_description''), 500)"
    by (rule ProductService_single_fails [OF store product])
next
  fix original s s' e
  assume "SEOService_get_optimized_description jj generate_content original
            (title (mapped product)) (prompt_preferences store) store_id s = (s', Inl e)"
  then have "s' = s"
    by (simp add: generation_raises)
  then show "products (committed (rollback s')) = products (committed s)"
    and "products (working (rollback s')) = products (committed s)"
    by (simp_all add: rollback_def)
qed

theorem C6_failure_leaves_product_witness:
  "(\<exists>d'. SEOService_optimize_product_description sample_jinja sample_provider 7 1 1 2
           (shop [prompt_with ''Describe'']) =
           (d', Error (no_attribute ''Product'' ''original_description''), 500) \<and>
         products d' = products (shop [prompt_with ''Describe'']) \<and>
         query_product d' 2 1 = Some (load (mug 2 ''Mug 2''))) \<and>
   ProductService_optimize_product_description sample_builtins failing_provider 7 1 1 2
     (shop []) =
     (shop [], Error (no_attribute ''Product'' ''original_description''), 500) \<and>
   products (committed (rollback (fst (SEOService_get_optimized_description sample_jinja
      sample_provider (JStr ''A mug'') ''Mug 2'' (prompt_preferences sample_store) 1
      (begin_session (shop [prompt_with ''Describe'']))))))
     = products (shop [prompt_with ''Describe''])"
proof -
  note t1 = C6_failure_leaves_product [OF shop_store [of "[prompt_with ''Describe'']"]
      shop_mug_2 [of "[prompt_with ''Describe'']"],
      where jj = sample_jinja and generate_content = sample_provider and now = 7]
  note t2 = C6_failure_leaves_product [OF shop_store [of "[]"] shop_mug_2 [of "[]"],
      where py = sample_builtins and generate_content = failing_provider and now = 7]
  let ?call = "SEOService_get_optimized_description sample_jinja sample_provider
      (JStr ''A mug'') ''Mug 2'' (prompt_preferences sample_store) 1
      (begin_session (shop [prompt_with ''Describe'']))"
  have call: "?call = (fst ?call, Inl (generation_failed (no_property ''prompts'' ''is_active'')))"
    by (simp add: generation_raises)
  have title: "title (mapped (load (mug 2 ''Mug 2''))) = ''Mug 2''"
    by (simp add: load_def mug_def)
  from t1 [THEN conjunct2, THEN conjunct2, rule_format, of "JStr ''A mug''"
      "begin_session (shop [prompt_with ''Describe''])" "fst ?call"
      "generation_failed (no_property ''prompts'' ''is_active'')"] call title
  have c: "products (committed (rollback (fst ?call))) =
           products (committed (begin_session (shop [prompt_with ''Describe''])))"
    by simp
  from t1 [THEN conjunct1] t2 [THEN conjunct2, THEN conjunct1] c show ?thesis
    by (simp add: begin_session_def)
qed


section \<open>The default prompt and the fallback render\<close>

text \<open>
  C1: the fallback of lines 74 and 75 renders \<open>Prompt.create_default_prompt(store_id)\<close>,
  whose body is stored in the column \<open>response\<close>, while \<open>render_prompt\<close> reads the
  attribute \<open>template\<close>, which the class does not declare. So the fallback render
  raises before the engine sees the built-in body, on every engine, store and context;
  the first render raises in the same way on every prompt that a query has loaded, and
  the two renders of lines 69 to 75 end in that error. No call of
  \<open>_get_optimized_description\<close> gets as far: the query of line 36 raises.
\<close>

theorem C1_fallback_cannot_render:
  "render_prompt jj (create_default_prompt store_id) context =
     Inl (render_failed (no_attribute ''Prompt'' ''template'')) \<and>
   render_prompt jj (load p) context =
     Inl (render_failed (no_attribute ''Prompt'' ''template'')) \<and>
   render_with_fallback jj store_id (load p) context =
     Inl (render_failed (no_attribute ''Prompt'' ''template'')) \<and>
   map_of (columns (mapped (create_default_prompt store_id))) ''response'' =
     Some (JStr default_template_body) \<and>
   ''template'' \<notin> set Prompt_columns \<and>
   SEOService_get_optimized_description jj generate_content original product_title
     preferences store_id s =
     (s, Inl (generation_failed (no_property ''prompts'' ''is_active'')))"
proof (intro conjI)
  show "render_prompt jj (create_default_prompt store_id) context =
          Inl (render_failed (no_attribute ''Prompt'' ''template''))"
    by (rule render_default_prompt)
  show "render_prompt jj (load p) context =
          Inl (render_failed (no_attribute ''Prompt'' ''template''))"
    by (rule render_loaded_prompt)
  show "render_with_fallback jj store_id (load p) context =
          Inl (render_failed (no_attribute ''Prompt'' ''template''))"
    by (rule fallback_fails [OF render_loaded_prompt])
  show "SEOService_get_optimized_description jj generate_content original product_title
          preferences store_id s =
          (s, Inl (generation_failed (no_property ''prompts'' ''is_active'')))"
    by (rule generation_raises)
qed (simp_all add: create_default_prompt_def Prompt_columns_def)

text \<open>
  C5: obtaining the active prompt of a store creates nothing. The query of line 36 filters
  on \<open>is_active\<close>, which is no column of a prompt, and raises on every call, for every
  store and in every session; the session is as before, so no prompt is added, and the
  single-item optimisation leaves the prompt table as it was. The default prompt itself
  carries no mark of being active.
\<close>

theorem C5_active_prompt_lookup_raises:
  "get_active_prompt store_id s = (Inl (no_property ''prompts'' ''is_active''), s) \<and>
   fst (SEOService_get_optimized_description jj generate_content original product_title
          preferences store_id s) = s \<and>
   prompts (fst (SEOService_optimize_product_description jj generate_content now user_id
                   store_id product_id d)) = prompts d \<and>
   ''is_active'' \<notin> set Prompt_columns \<and>
   map_of (columns (mapped (create_default_prompt store_id))) ''is_active'' = None \<and>
   map_of (unmapped (create_default_prompt store_id)) ''is_active'' = None"
  by (simp add: get_active_prompt_raises generation_raises SEOService_single_database
      Prompt_columns_def create_default_prompt_def)

section \<open>Template validation\<close>

lemma create_prompt_rejects:
  assumes "query_store d store_id user_id = Some store"
    and "map_of prompt_data ''template'' = Some source"
    and "Template jj source = Inl e"
  shows "\<exists>msg. create_prompt jj store_id user_id prompt_data d = (d, Error msg, 400)"
  using assms
  by (cases "first_missing [''name'', ''template''] prompt_data")
     (simp_all add: create_prompt_def dict_get_def)

lemma update_prompt_rejects:
  assumes "query_store d store_id user_id = Some store"
    and "query_prompt d prompt_id store_id = Some prompt"
    and "map_of prompt_data ''template'' = Some source"
    and "Template jj source = Inl e"
  shows "update_prompt jj now store_id user_id prompt_id prompt_data d =
           (d, Error (''Invalid template syntax: '' @ e), 400)"
  using assms by (simp add: update_prompt_def)

lemma Prompt_init_name:
  "Prompt_init store_id ((''name'', v) # kwargs) = Inl (invalid_keyword ''name'' ''Prompt'')"
  by (simp add: Prompt_init_def Prompt_columns_def)

lemma Prompt_init_default:
  "Prompt_init store_id (columns (mapped (create_default_prompt store_id))) =
     Inr (create_default_prompt store_id)"
  by (simp add: Prompt_init_def Prompt_columns_def create_default_prompt_def)

lemma create_prompt_database: "fst (create_prompt jj store_id user_id prompt_data d) = d"
  by (simp add: create_prompt_def Prompt_init_name split: option.splits sum.splits)

lemma create_prompt_raises:
  assumes "query_store d store_id user_id = Some store"
    and "first_missing [''name'', ''template''] prompt_data = None"
    and "Template jj (dict_get prompt_data ''template'' JNull) = Inr t"
  shows "create_prompt jj store_id user_id prompt_data d =
           (d, Error (invalid_keyword ''name'' ''Prompt''), 500)"
  using assms by (simp add: create_prompt_def Prompt_init_name)

lemma update_prompt_success:
  assumes "update_prompt jj now store_id user_id prompt_id prompt_data d = (d', r, 200)"
  shows "map_of prompt_data ''template'' = None \<or>
         (\<exists>source t. map_of prompt_data ''template'' = Some source \<and>
                     Template jj source = Inr t)"
  using assms
  by (auto simp: update_prompt_def Let_def split: option.splits sum.splits)

lemma update_prompt_failure:
  assumes "update_prompt jj now store_id user_id prompt_id prompt_data d = (d', r, code)"
    and "code \<noteq> 200"
  shows "d' = d"
  using assms
  by (auto simp: update_prompt_def Let_def split: option.splits sum.splits)

lemma not_parseable: "\<not> parseable jj p"
  by (simp add: parseable_def getattr_load)

text \<open>
  C10, amended: for a store (and, for an update, a prompt) that the queries find, a request
  whose template the engine rejects is answered 400 and the database is unchanged;
  \<open>create_prompt\<close> leaves the database as it was on every request; an update that does
  not answer 200 leaves the database as it was, and one that answers 200 had no template
  in its request or one that the engine accepts.
\<close>

theorem C10_template_validated_before_write:
  "(\<forall>store source e.
      query_store d store_id user_id = Some store \<longrightarrow>
      map_of prompt_data ''template'' = Some source \<longrightarrow> Template jj source = Inl e \<longrightarrow>
      (\<exists>msg. create_prompt jj store_id user_id prompt_data d = (d, Error msg, 400))) \<and>
   (\<forall>store prompt source e.
      query_store d store_id user_id = Some store \<longrightarrow>
      query_prompt d prompt_id store_id = Some prompt \<longrightarrow>
      map_of prompt_data ''template'' = Some source \<longrightarrow> Template jj source = Inl e \<longrightarrow>
      update_prompt jj now store_id user_id prompt_id prompt_data d =
        (d, Error (''Invalid template syntax: '' @ e), 400)) \<and>
   fst (create_prompt jj store_id user_id prompt_data d) = d \<and>
   (\<forall>d' r code.
      update_prompt jj now store_id user_id prompt_id prompt_data d = (d', r, code) \<longrightarrow>
      code \<noteq> 200 \<longrightarrow> d' = d) \<and>
   (\<forall>d' r.
      update_prompt jj now store_id user_id prompt_id prompt_data d = (d', r, 200) \<longrightarrow>
      map_of prompt_data ''template'' = None \<or>
      (\<exists>source t. map_of prompt_data ''template'' = Some source \<and>
                  Template jj source = Inr t))"
proof (intro conjI allI impI)
  fix store source e
  assume "query_store d store_id user_id = Some store"
    "map_of prompt_data ''template'' = Some source" "Template jj source = Inl e"
  then show "\<exists>msg. create_prompt jj store_id user_id prompt_data d = (d, Error msg, 400)"
    by (rule create_prompt_rejects)
next
  fix store prompt source e
  assume "query_store d store_id user_id = Some store"
    "query_prompt d prompt_id store_id = Some prompt"
    "map_of prompt_data ''template'' = Some source" "Template jj source = Inl e"
  then show "update_prompt jj now store_id user_id prompt_id prompt_data d =
               (d, Error (''Invalid template syntax: '' @ e), 400)"
    by (rule update_prompt_rejects)
next
  show "fst (create_prompt jj store_id user_id prompt_data d) = d"
    by (rule create_prompt_database)
next
  fix d' r code
  assume "update_prompt jj now store_id user_id prompt_id prompt_data d = (d', r, code)"
    "code \<noteq> 200"
  then show "d' = d"
    by (rule update_prompt_failure)
next
  fix d' r
  assume "update_prompt jj now store_id user_id prompt_id prompt_data d = (d', r, 200)"
  then show "map_of prompt_data ''template'' = None \<or>
      (\<exists>source t. map_of prompt_data ''template'' = Some source \<and>
                  Template jj source = Inr t)"
    by (rule update_prompt_success)
qed

text \<open>
  C10, as the specification states it, fails in its last clause: \<open>update_prompt\<close> validates
  the template only if the request supplies one. A request that changes the tone of a
  stored prompt is answered 200 and the row is written, yet the prompt has no body that
  parses: neither an attribute \<open>template\<close> nor a \<open>response\<close> that the engine accepts.
  Nor does a request with a template that parses give the stored prompt such a body.
\<close>

theorem C10_update_keeps_unvalidated_template_counterexample:
  "update_prompt sample_jinja 7 1 1 1 retoned (shop [prompt_with ''{% if %}'']) =
     (shop [(prompt_with ''{% if %}'')
              \<lparr>Prompt_updated_at := Some 7,
               columns := [(''template_name'', JStr ''Seasonal''), (''content'', JStr ''Offers''),
                           (''response'', JStr ''{% if %}''), (''tone'', JStr ''casual'')]\<rparr>],
      Prompt_reply ''Prompt updated successfully''
        ((prompt_with ''{% if %}'')
           \<lparr>Prompt_updated_at := Some 7,
            columns := [(''template_name'', JStr ''Seasonal''), (''content'', JStr ''Offers''),
                        (''response'', JStr ''{% if %}''), (''tone'', JStr ''casual'')]\<rparr>),
      200) \<and>
   map (parseable sample_jinja)
     (prompts (fst (update_prompt sample_jinja 7 1 1 1 retoned
        (shop [prompt_with ''{% if %}''])))) = [False] \<and>
   map (\<lambda>p. isl (Template sample_jinja (dict_get (columns p) ''response'' JNull)))
     (prompts (fst (update_prompt sample_jinja 7 1 1 1 retoned
        (shop [prompt_with ''{% if %}''])))) = [True] \<and>
   snd (snd (update_prompt sample_jinja 7 1 1 1 (new_prompt ''Praise'')
     (shop [prompt_with ''{% if %}'']))) = 200 \<and>
   map (parseable sample_jinja)
     (prompts (fst (update_prompt sample_jinja 7 1 1 1 (new_prompt ''Praise'')
        (shop [prompt_with ''{% if %}''])))) = [False]"
  by code_simp

theorem C10_template_validated_before_write_witness:
  "(\<exists>msg. create_prompt sample_jinja 1 1 (new_prompt ''{% if %}'') (shop []) =
            (shop [], Error msg, 400)) \<and>
   update_prompt sample_jinja 7 1 1 1 (new_prompt ''{% if %}'') (shop [prompt_with ''Describe'']) =
     (shop [prompt_with ''Describe''],
      Error ''Invalid template syntax: unexpected end of template'', 400) \<and>
   fst (create_prompt sample_jinja 1 1 (new_prompt ''Praise'') (shop [])) = shop [] \<and>
   fst (update_prompt sample_jinja 7 1 1 2 (new_prompt ''Praise'') (shop [prompt_with ''Describe''])) =
     shop [prompt_with ''Describe''] \<and>
   snd (snd (update_prompt sample_jinja 7 1 1 1 (new_prompt ''Praise'')
     (shop [prompt_with ''Describe'']))) = 200 \<and>
   Template sample_jinja (JStr ''Praise'') = Inr ''Praise''"
proof -
  note t = C10_template_validated_before_write
  have src: "map_of (new_prompt ''{% if %}'') ''template'' = Some (JStr ''{% if %}'')"
    "Template sample_jinja (JStr ''{% if %}'') = Inl ''unexpected end of template''"
    by (simp_all add: new_prompt_def sample_jinja_def)
  have prompt: "query_prompt (shop [prompt_with ''Describe'']) 1 1 =
      Some (load (prompt_with ''Describe''))"
    by (simp add: query_prompt_def shop_def prompt_with_def)
  from t [of "shop []" 1 1 "new_prompt ''{% if %}''" sample_jinja] shop_store [of "[]"] src
  have a: "\<exists>msg. create_prompt sample_jinja 1 1 (new_prompt ''{% if %}'') (shop []) =
                  (shop [], Error msg, 400)"
    by blast
  from t [of "shop [prompt_with ''Describe'']" 1 1 "new_prompt ''{% if %}''" sample_jinja 1 7]
    shop_store [of "[prompt_with ''Describe'']"] prompt src
  have b: "update_prompt sample_jinja 7 1 1 1 (new_prompt ''{% if %}'')
      (shop [prompt_with ''Describe'']) =
     (shop [prompt_with ''Describe''],
      Error ''Invalid template syntax: unexpected end of template'', 400)"
    by (simp del: One_nat_def)
  from t [of "shop []" 1 1 "new_prompt ''Praise''" sample_jinja]
  have c: "fst (create_prompt sample_jinja 1 1 (new_prompt ''Praise'') (shop [])) = shop []"
    by blast
  have missing: "update_prompt sample_jinja 7 1 1 2 (new_prompt ''Praise'')
      (shop [prompt_with ''Describe'']) =
      (shop [prompt_with ''Describe''], Error ''Prompt not found'', 404)"
    by code_simp
  from t [of "shop [prompt_with ''Describe'']" 1 1 "new_prompt ''Praise''" sample_jinja 2 7]
    missing
  have d: "fst (update_prompt sample_jinja 7 1 1 2 (new_prompt ''Praise'')
      (shop [prompt_with ''Describe''])) = shop [prompt_with ''Describe'']"
    by simp
  have e: "snd (snd (update_prompt sample_jinja 7 1 1 1 (new_prompt ''Praise'')
     (shop [prompt_with ''Describe'']))) = 200"
    by code_simp
  have ok: "\<exists>d' r. update_prompt sample_jinja 7 1 1 1 (new_prompt ''Praise'')
     (shop [prompt_with ''Describe'']) = (d', r, 200)"
    using e by (metis prod.collapse)
  from t [of "shop [prompt_with ''Describe'']" 1 1 "new_prompt ''Praise''" sample_jinja 1 7] ok
  have "map_of (new_prompt ''Praise'') ''template'' = None \<or>
      (\<exists>source t. map_of (new_prompt ''Praise'') ''template'' = Some source \<and>
                  Template sample_jinja source = Inr t)"
    by blast
  then have f: "Template sample_jinja (JStr ''Praise'') = Inr ''Praise''"
    by (simp add: new_prompt_def sample_jinja_def)
  from a b c d e f show ?thesis by blast
qed

section \<open>Batches\<close>

lemma SEOService_loop:
  "SEOService_optimize_loop jj generate_content now preferences store_id (map load items) s
     optimized_products errors =
   (s, optimized_products,
    errors @ map (\<lambda>p. (Product_id p, no_attribute ''Product'' ''original_description'')) items)"
proof (induction items arbitrary: errors)
  case Nil
  show ?case by simp
next
  case (Cons p items)
  have "mapped (load p) = p"
    by (simp add: load_def)
  then show ?case
    by (simp add: getattr_load Cons.IH)
qed

lemma ProductService_loop:
  "ProductService_optimize_loop py generate_content now preferences (map load items) d
     optimized_products = (d, optimized_products)"
  by (induction items) (simp_all add: getattr_load)

lemma query_products_items: "query_products d store_id = map load (store_items store_id d)"
  by (simp add: query_products_def store_items_def)

lemma SEOService_outcome_fails:
  "SEOService_outcome jj generate_content preferences store_id d =
     (\<lambda>p. Inl (no_attribute ''Product'' ''original_description''))"
  by (rule ext) (simp add: SEOService_outcome_def getattr_load)

lemma ProductService_outcome_fails:
  "ProductService_outcome py generate_content preferences =
     (\<lambda>p. Inl (no_attribute ''Product'' ''original_description''))"
  by (rule ext) (simp add: ProductService_outcome_def getattr_load)

lemma successes_none: "successes (\<lambda>p. Inl e) now items = []"
  by (simp add: successes_def List.map_filter_def)

lemma failures_all: "failures (\<lambda>p. Inl e) items = map (\<lambda>p. (Product_id p, e)) items"
  by (simp add: failures_def List.map_filter_def comp_def)

lemma commit_begin: "committed (commit (begin_session d)) = d"
  by (simp add: commit_def begin_session_def)

lemma SEOService_batch:
  assumes "query_store d store_id user_id = Some store"
  shows "SEOService_optimize_all_products jj generate_content now user_id store_id d =
           (d,
            Batch (successfully_optimized 0) []
              (if store_items store_id d \<noteq> []
               then Some (map (\<lambda>p. (Product_id p,
                                      no_attribute ''Product'' ''original_description''))
                            (store_items store_id d))
               else None),
            if store_items store_id d = [] then 200 else 207)"
  by (simp add: SEOService_optimize_all_products_def assms query_products_items SEOService_loop
      commit_begin)

lemma ProductService_batch:
  assumes "query_store d store_id user_id = Some store"
  shows "ProductService_optimize_all_products py generate_content now user_id store_id d =
           (d, Batch (successfully_optimized 0) [] None, 200)"
  by (simp add: ProductService_optimize_all_products_def assms query_products_items
      ProductService_loop)

lemma no_products_optimized: "successfully_optimized 0 = ''Successfully optimized 0 products''"
  by code_simp

lemma shop_items:
  "store_items (Suc 0) (shop ps) = [mug 1 ''Mug 1'', mug 2 ''Mug 2'', mug 3 ''Mug 3'']"
  by (simp add: store_items_def shop_def mug_def)

text \<open>
  The batch deployment completes no batch: its query filters on \<open>is_optimized\<close>, which is
  no column of a product, and raises; and the deployment of one product raises at the read
  of \<open>product.is_optimized\<close>.
\<close>

lemma deploy_all_optimizations_raises:
  assumes "query_store d store_id user_id = Some store" and "str_truthy (access_token store)"
  shows "deploy_all_optimizations put now user_id store_id d =
           (d, Error (no_property ''products'' ''is_optimized''), 500)"
  by (simp add: deploy_all_optimizations_def assms query_pending_deployment_def
      is_optimized_no_property)

lemma deploy_optimization_raises:
  assumes "query_store d store_id user_id = Some store" and "str_truthy (access_token store)"
    and "query_product d product_id store_id = Some product"
  shows "deploy_optimization put now user_id store_id product_id d =
           (d, Error (no_attribute ''Product'' ''is_optimized''), 500)"
proof -
  have "getattr ''Product'' product ''is_optimized'' =
          Inl (no_attribute ''Product'' ''is_optimized'')"
    using query_product_loaded [OF assms(3)] getattr_load [of "''Product''" "mapped product"]
    by simp
  then show ?thesis
    by (simp add: deploy_optimization_def assms)
qed

text \<open>
  C2, amended: for a store that the query finds, \<open>SEOService.optimize_all_products\<close>
  processes the store's products in input order; a failure of the per-item operation is
  recorded as the pair of the item's key and the error message and the loop goes on; the
  reply lists the optimised items and, if there are any, the failure entries, so that
  succeeded and failed are the numbers of items whose operation succeeded and failed.
  \<open>ProductService.optimize_all_products\<close> processes the items in the same order and
  skips a failed item without recording it: its reply lists the optimised items only and
  its status is 200. (In both, the per-item operation fails on every item, at the read of
  \<open>product.original_description\<close>: every item has its failure entry in the first, no item
  is optimised in either, and no row is written.)
\<close>

theorem C2_batch_isolates_failures:
  assumes store: "query_store d store_id user_id = Some store"
  shows "let items = store_items store_id d;
             out = SEOService_outcome jj generate_content (prompt_preferences store) store_id d;
             oks = successes out now items;
             errs = failures out items;
             out' = ProductService_outcome py generate_content (prompt_preferences store);
             oks' = successes out' now items
         in SEOService_optimize_all_products jj generate_content now user_id store_id d =
              (fold save_product oks d,
               Batch (successfully_optimized (length oks)) oks
                 (if errs \<noteq> [] then Some errs else None),
               if errs = [] then 200 else 207) \<and>
            map Product_id oks = map Product_id (filter (\<lambda>p. \<not> isl (out p)) items) \<and>
            map fst errs = map Product_id (filter (\<lambda>p. isl (out p)) items) \<and>
            map snd errs = map (\<lambda>p. projl (out p)) (filter (\<lambda>p. isl (out p)) items) \<and>
            length oks + length errs = length items \<and>
            ProductService_optimize_all_products py generate_content now user_id store_id d =
              (fold save_product oks' d,
               Batch (successfully_optimized (length oks')) oks' None,
               200) \<and>
            map Product_id oks' = map Product_id (filter (\<lambda>p. \<not> isl (out' p)) items) \<and>
            errs = map (\<lambda>p. (Product_id p, no_attribute ''Product'' ''original_description''))
                     items \<and>
            oks = [] \<and> oks' = []"
  unfolding Let_def SEOService_outcome_fails ProductService_outcome_fails successes_none
    failures_all
  by (simp add: SEOService_batch [OF store] ProductService_batch [OF store] comp_def)

theorem C2_batch_isolates_failures_witness:
  "SEOService_optimize_all_products sample_jinja sample_provider 7 1 1 (shop []) =
     (shop [],
      Batch ''Successfully optimized 0 products'' []
        (Some [(1, no_attribute ''Product'' ''original_description''),
               (2, no_attribute ''Product'' ''original_description''),
               (3, no_attribute ''Product'' ''original_description'')]),
      207) \<and>
   ProductService_optimize_all_products sample_builtins sample_provider 7 1 1 (shop []) =
     (shop [], Batch ''Successfully optimized 0 products'' [] None, 200)"
proof -
  note t = C2_batch_isolates_failures [OF shop_store [of "[]"], unfolded Let_def,
      where jj = sample_jinja and generate_content = sample_provider and now = 7
        and py = sample_builtins]
  note r5 = t [THEN conjunct2, THEN conjunct2, THEN conjunct2, THEN conjunct2, THEN conjunct2]
  note r7 = r5 [THEN conjunct2, THEN conjunct2]
  from t [THEN conjunct1] r5 [THEN conjunct1] r7 [THEN conjunct1]
    r7 [THEN conjunct2, THEN conjunct1] r7 [THEN conjunct2, THEN conjunct2]
  show ?thesis
    by (simp add: shop_items mug_def no_products_optimized)
qed

text \<open>
  C2, as the specification states it, fails on \<open>ProductService.optimize_all_products\<close>:
  of three items whose per-item operation fails, the reply holds no failure entry and no
  count of failures, and the status is 200.
\<close>

theorem C2_product_service_drops_failures_counterexample:
  "ProductService_optimize_all_products sample_builtins sample_provider 7 1 1 (shop []) =
     (shop [], Batch ''Successfully optimized 0 products'' [] None, 200) \<and>
   map (ProductService_outcome sample_builtins sample_provider (prompt_preferences sample_store))
     (store_items 1 (shop [])) =
     [Inl (no_attribute ''Product'' ''original_description''),
      Inl (no_attribute ''Product'' ''original_description''),
      Inl (no_attribute ''Product'' ''original_description'')]"
  by code_simp

text \<open>
  C3, amended: for a store that the query finds, the batch optimiser of the SEO service
  answers 200 when no item failed and 207 when at least one item failed, whether or not
  any item succeeded; the batch optimiser of the product service answers 200. (The
  per-item operation fails on every item, so a batch of the SEO service with at least one
  item is answered 207.)
\<close>

theorem C3_composite_status:
  assumes store: "query_store d store_id user_id = Some store"
  shows "let items = store_items store_id d;
             out = SEOService_outcome jj generate_content (prompt_preferences store) store_id d;
             errs = failures out items
         in snd (snd (SEOService_optimize_all_products jj generate_content now user_id
                        store_id d)) = (if errs = [] then 200 else 207) \<and>
            (errs = []) = list_all (\<lambda>p. \<not> isl (out p)) items \<and>
            length errs = length (filter (\<lambda>p. isl (out p)) items) \<and>
            (items \<noteq> [] \<longrightarrow>
               snd (snd (SEOService_optimize_all_products jj generate_content now user_id
                           store_id d)) = 207) \<and>
            snd (snd (ProductService_optimize_all_products py generate_content now user_id
                        store_id d)) = 200"
  unfolding Let_def SEOService_outcome_fails failures_all
  by (simp add: SEOService_batch [OF store] ProductService_batch [OF store] list_all_iff)

text \<open>
  C3, as the specification states it, fails: a batch in which no item succeeds is answered
  with 207, the status of a partial success, by the SEO service, and with 200 by the
  product service, not with a failure status.
\<close>

theorem C3_no_success_is_multi_status_counterexample:
  "SEOService_optimize_all_products sample_jinja steady_provider 7 1 1 (shop []) =
     (shop [],
      Batch ''Successfully optimized 0 products'' []
        (Some [(1, no_attribute ''Product'' ''original_description''),
               (2, no_attribute ''Product'' ''original_description''),
               (3, no_attribute ''Product'' ''original_description'')]),
      207) \<and>
   ProductService_optimize_all_products sample_builtins steady_provider 7 1 1 (shop []) =
     (shop [], Batch ''Successfully optimized 0 products'' [] None, 200)"
  by code_simp

theorem C3_composite_status_witness:
  "snd (snd (SEOService_optimize_all_products sample_jinja steady_provider 7 1 1 (shop []))) = 207 \<and>
   snd (snd (SEOService_optimize_all_products sample_jinja steady_provider 7 1 1 sample_db)) = 200 \<and>
   snd (snd (ProductService_optimize_all_products sample_builtins steady_provider 7 1 1
               (shop []))) = 200"
proof -
  have items: "store_items 1 (shop []) \<noteq> []" "store_items (Suc 0) sample_db = []"
  proof -
    show "store_items 1 (shop []) \<noteq> []"
      by (simp add: shop_items)
    show "store_items (Suc 0) sample_db = []"
      by (simp add: store_items_def sample_db_def)
  qed
  note t1 = C3_composite_status [OF shop_store [of "[]"], unfolded Let_def,
      where jj = sample_jinja and generate_content = steady_provider and now = 7
        and py = sample_builtins]
  note t2 = C3_composite_status [OF sample_query_store, unfolded Let_def,
      where jj = sample_jinja and generate_content = steady_provider and now = 7
        and py = sample_builtins]
  from t1 items(1)
  have a: "snd (snd (SEOService_optimize_all_products sample_jinja steady_provider 7 1 1
      (shop []))) = 207"
    by blast
  from t2 have "failures (SEOService_outcome sample_jinja steady_provider
      (prompt_preferences sample_store) 1 sample_db) (store_items 1 sample_db) = []"
    by (simp add: items(2))
  with t2 [THEN conjunct1]
  have b: "snd (snd (SEOService_optimize_all_products sample_jinja steady_provider 7 1 1
      sample_db)) = 200"
    by simp
  from t1 have c: "snd (snd (ProductService_optimize_all_products sample_builtins
      steady_provider 7 1 1 (shop []))) = 200"
    by blast
  from a b c show ?thesis by blast
qed

end
